theory Spec2Isabelle
  imports Complex_Main "HOL-Library.Word"
begin

section \<open>JavaScript numbers\<close>

text \<open>
  The program computes with JavaScript numbers. They are modelled as exact reals extended
  with the three non-finite values of IEEE 754: rounding and signed zeros are not modelled
  (a zero divisor is the positive zero; every divisor of the program is a count or a
  positive constant). Each operation below follows the ECMAScript definition of the
  operator or \<open>Math\<close> function it is named after. Where the outcome of a comparison
  depends on rounding, as in the beat test, the arithmetic is a parameter instead.
\<close>

datatype jsnum = Num real | PosInf | NegInf | NaN

fun js_neg :: "jsnum \<Rightarrow> jsnum" where
  "js_neg (Num a) = Num (- a)"
| "js_neg PosInf = NegInf"
| "js_neg NegInf = PosInf"
| "js_neg NaN = NaN"

fun js_add :: "jsnum \<Rightarrow> jsnum \<Rightarrow> jsnum" where
  "js_add (Num a) (Num b) = Num (a + b)"
| "js_add NaN _ = NaN"
| "js_add _ NaN = NaN"
| "js_add PosInf NegInf = NaN"
| "js_add NegInf PosInf = NaN"
| "js_add PosInf _ = PosInf"
| "js_add _ PosInf = PosInf"
| "js_add NegInf _ = NegInf"
| "js_add _ NegInf = NegInf"

definition js_sub :: "jsnum \<Rightarrow> jsnum \<Rightarrow> jsnum" where
  "js_sub a b = js_add a (js_neg b)"

fun js_mul :: "jsnum \<Rightarrow> jsnum \<Rightarrow> jsnum" where
  "js_mul (Num a) (Num b) = Num (a * b)"
| "js_mul NaN _ = NaN"
| "js_mul _ NaN = NaN"
| "js_mul PosInf (Num b) = (if b = 0 then NaN else if 0 < b then PosInf else NegInf)"
| "js_mul NegInf (Num b) = (if b = 0 then NaN else if 0 < b then NegInf else PosInf)"
| "js_mul (Num a) PosInf = (if a = 0 then NaN else if 0 < a then PosInf else NegInf)"
| "js_mul (Num a) NegInf = (if a = 0 then NaN else if 0 < a then NegInf else PosInf)"
| "js_mul PosInf PosInf = PosInf"
| "js_mul NegInf NegInf = PosInf"
| "js_mul PosInf NegInf = NegInf"
| "js_mul NegInf PosInf = NegInf"

fun js_div :: "jsnum \<Rightarrow> jsnum \<Rightarrow> jsnum" where
  "js_div (Num a) (Num b) =
     (if b = 0 then (if a = 0 then NaN else if 0 < a then PosInf else NegInf)
      else Num (a / b))"
| "js_div NaN _ = NaN"
| "js_div _ NaN = NaN"
| "js_div (Num a) PosInf = Num 0"
| "js_div (Num a) NegInf = Num 0"
| "js_div PosInf (Num b) = (if 0 \<le> b then PosInf else NegInf)"
| "js_div NegInf (Num b) = (if 0 \<le> b then NegInf else PosInf)"
| "js_div PosInf PosInf = NaN"
| "js_div PosInf NegInf = NaN"
| "js_div NegInf PosInf = NaN"
| "js_div NegInf NegInf = NaN"

text \<open>\<open>a > b\<close>: false whenever an operand is NaN.\<close>

fun js_gt :: "jsnum \<Rightarrow> jsnum \<Rightarrow> bool" where
  "js_gt (Num a) (Num b) = (b < a)"
| "js_gt NaN _ = False"
| "js_gt _ NaN = False"
| "js_gt PosInf PosInf = False"
| "js_gt PosInf _ = True"
| "js_gt NegInf _ = False"
| "js_gt (Num a) PosInf = False"
| "js_gt (Num a) NegInf = True"

definition js_lt :: "jsnum \<Rightarrow> jsnum \<Rightarrow> bool" where
  "js_lt a b = js_gt b a"

fun Math_sqrt :: "jsnum \<Rightarrow> jsnum" where
  "Math_sqrt (Num a) = (if a < 0 then NaN else Num (sqrt a))"
| "Math_sqrt PosInf = PosInf"
| "Math_sqrt NegInf = NaN"
| "Math_sqrt NaN = NaN"

text \<open>\<open>Math.pow(x, 2)\<close>, the only integer exponent of the program.\<close>

fun Math_pow_2 :: "jsnum \<Rightarrow> jsnum" where
  "Math_pow_2 (Num a) = Num (a * a)"
| "Math_pow_2 PosInf = PosInf"
| "Math_pow_2 NegInf = PosInf"
| "Math_pow_2 NaN = NaN"

text \<open>
  \<open>Math.pow(x, 0.7)\<close>: NaN on a negative finite base (the exponent is not an integer),
  \<open>+Infinity\<close> on both infinities, and \<open>0\<close> at \<open>0\<close>.
\<close>

fun Math_pow_07 :: "jsnum \<Rightarrow> jsnum" where
  "Math_pow_07 (Num a) = (if a < 0 then NaN else Num (a powr (7 / 10)))"
| "Math_pow_07 PosInf = PosInf"
| "Math_pow_07 NegInf = PosInf"
| "Math_pow_07 NaN = NaN"

text \<open>\<open>MathUtils.lerp(start, end, factor)\<close>: \<open>start + (end - start) * factor\<close>.\<close>

definition lerp :: "jsnum \<Rightarrow> jsnum \<Rightarrow> jsnum \<Rightarrow> jsnum" where
  "lerp start end' factor = js_add start (js_mul (js_sub end' start) factor)"

datatype js_error = TypeError

section \<open>The feature extractor (\<open>AudioAnalyzer\<close>)\<close>

record audio_context =
  sampleRate :: real
  suspended :: bool

record analyser_node =
  node_fftSize :: nat
  node_smoothingTimeConstant :: real

text \<open>
  The Web Audio analyser exposes \<open>frequencyBinCount\<close>, half of its \<open>fftSize\<close>.
\<close>

definition frequencyBinCount :: "analyser_node \<Rightarrow> nat" where
  "frequencyBinCount node = node_fftSize node div 2"

record AnalysisFrame =
  volume :: jsnum
  energy :: jsnum
  beat :: bool
  dominantFrequency :: jsnum
  bands :: "(string \<times> jsnum) list"
  spectrum :: "8 word list"
  waveform :: "8 word list"

text \<open>
  The fields of the class that are assigned after construction. \<open>source\<close> records
  whether the media-element source exists; \<open>lastFrequencyData\<close> is \<open>None\<close> while
  the property is undefined. The tuning fields that are never reassigned
  (\<open>fftSize\<close>, \<open>smoothingTimeConstant\<close>, \<open>beatThreshold\<close>, \<open>beatMinInterval\<close>,
  \<open>maxEnergyHistorySize\<close>, \<open>frequencyBands\<close>) are constants.
\<close>

record AudioAnalyzer =
  audioContext :: "audio_context option"
  analyser :: "analyser_node option"
  source :: bool
  frequencyData :: "8 word list option"
  timeData :: "8 word list option"
  lastBeatTime :: int
  energyHistory :: "jsnum list"
  currentAnalysis :: AnalysisFrame
  lastFrequencyData :: "jsnum list option"

definition fftSize :: nat where
  "fftSize = 2048"

definition smoothingTimeConstant :: real where
  "smoothingTimeConstant = 8 / 10"

definition beatThreshold :: real where
  "beatThreshold = 35 / 100"

definition beatMinInterval :: int where
  "beatMinInterval = 200"

definition maxEnergyHistorySize :: nat where
  "maxEnergyHistorySize = 43"

definition defaultAnalysis :: AnalysisFrame where
  "defaultAnalysis =
     \<lparr> volume = Num 0, energy = Num 0, beat = False, dominantFrequency = Num 0,
       bands = [], spectrum = [], waveform = [] \<rparr>"

definition AudioAnalyzer_new :: AudioAnalyzer where
  "AudioAnalyzer_new =
     \<lparr> audioContext = None, analyser = None, source = False,
       frequencyData = None, timeData = None,
       lastBeatTime = 0, energyHistory = [],
       currentAnalysis = defaultAnalysis, lastFrequencyData = None \<rparr>"

subsection \<open>Beat detection\<close>

text \<open>\<open>push\<close> the new energy, then one \<open>shift\<close> when the history is over its size.\<close>

definition pushEnergy :: "'a list \<Rightarrow> 'a \<Rightarrow> 'a list" where
  "pushEnergy h e =
     (let pushed = h @ [e]
      in if length pushed > maxEnergyHistorySize then tl pushed else pushed)"

text \<open>
  The beat test is floating-point arithmetic, and its outcome can depend on how each
  operation rounds. The operations are therefore parameters of the model: \<open>arith\<close> holds
  the platform's \<open>+\<close>, \<open>-\<close>, \<open>*\<close>, \<open>/\<close>, \<open>Math.sqrt\<close> and \<open>Math.pow(x, 2)\<close> on numbers and
  the number a decimal literal denotes. What is proved of \<open>detectBeat\<close> for every \<open>arith\<close>
  holds of the program whatever its rounding; \<open>exactArith\<close> is the arithmetic without
  rounding. Comparisons, array lengths and the literal \<open>0\<close> are exact on every platform.
\<close>

record arith =
  ar_add :: "jsnum \<Rightarrow> jsnum \<Rightarrow> jsnum"
  ar_sub :: "jsnum \<Rightarrow> jsnum \<Rightarrow> jsnum"
  ar_mul :: "jsnum \<Rightarrow> jsnum \<Rightarrow> jsnum"
  ar_div :: "jsnum \<Rightarrow> jsnum \<Rightarrow> jsnum"
  ar_sqrt :: "jsnum \<Rightarrow> jsnum"
  ar_pow2 :: "jsnum \<Rightarrow> jsnum"
  ar_literal :: "real \<Rightarrow> jsnum"

definition exactArith :: arith where
  "exactArith =
     \<lparr> ar_add = js_add, ar_sub = js_sub, ar_mul = js_mul, ar_div = js_div,
       ar_sqrt = Math_sqrt, ar_pow2 = Math_pow_2, ar_literal = Num \<rparr>"

definition averageEnergy :: "arith \<Rightarrow> jsnum list \<Rightarrow> jsnum" where
  "averageEnergy ar h = ar_div ar (foldl (ar_add ar) (Num 0) h) (Num (real (length h)))"

definition varianceEnergy :: "arith \<Rightarrow> jsnum list \<Rightarrow> jsnum" where
  "varianceEnergy ar h =
     ar_div ar
       (foldl (\<lambda>sum e. ar_add ar sum (ar_pow2 ar (ar_sub ar e (averageEnergy ar h)))) (Num 0) h)
       (Num (real (length h)))"

text \<open>
  The first conjunct of \<open>beatDetected\<close>:
  \<open>currentEnergy > averageEnergy + this.beatThreshold * Math.sqrt(variance)\<close>.
\<close>

definition energyExceedsThreshold :: "arith \<Rightarrow> jsnum list \<Rightarrow> jsnum \<Rightarrow> bool" where
  "energyExceedsThreshold ar h currentEnergy =
     js_gt currentEnergy
       (ar_add ar (averageEnergy ar h)
          (ar_mul ar (ar_literal ar beatThreshold) (ar_sqrt ar (varianceEnergy ar h))))"

text \<open>\<open>now\<close> is the value of \<open>Date.now()\<close>, in milliseconds.\<close>

definition detectBeat :: "arith \<Rightarrow> AudioAnalyzer \<Rightarrow> jsnum \<Rightarrow> int \<Rightarrow> bool \<times> AudioAnalyzer" where
  "detectBeat ar st currentEnergy now =
     (let h = pushEnergy (energyHistory st) currentEnergy;
          st1 = st\<lparr>energyHistory := h\<rparr>;
          timeSinceLastBeat = now - lastBeatTime st1;
          beatDetected =
            (energyExceedsThreshold ar h currentEnergy
             \<and> timeSinceLastBeat > beatMinInterval)
      in if beatDetected then (True, st1\<lparr>lastBeatTime := now\<rparr>) else (False, st1))"

text \<open>The statistics the beat test is specified with, over finite energies and the reals.\<close>

definition mean :: "real list \<Rightarrow> real" where
  "mean xs = sum_list xs / real (length xs)"

definition variance :: "real list \<Rightarrow> real" where
  "variance xs = (\<Sum>x\<leftarrow>xs. (x - mean xs)\<^sup>2) / real (length xs)"

subsection \<open>Volume, energy, dominant frequency, bands\<close>

text \<open>The number an element of a \<open>Uint8Array\<close> reads as.\<close>

definition magnitude :: "8 word \<Rightarrow> real" where
  "magnitude b = real (unat b)"

definition sample_of :: "8 word \<Rightarrow> real" where
  "sample_of b = (magnitude b - 128) / 128"

definition calculateVolume :: "8 word list \<Rightarrow> jsnum" where
  "calculateVolume td =
     Math_sqrt (js_div (Num (foldl (\<lambda>sum b. sum + sample_of b * sample_of b) 0 td))
                       (Num (real (length td))))"

definition calculateEnergy :: "8 word list \<Rightarrow> jsnum" where
  "calculateEnergy fd =
     js_div (Num (foldl (\<lambda>sum b. sum + magnitude b * magnitude b) 0 fd))
            (Num (real (length fd) * 255 * 255))"

text \<open>\<open>AudioUtils.getDominantFrequency\<close>: the first index of the largest magnitude above 0.\<close>

definition getDominantFrequency :: "8 word list \<Rightarrow> real \<Rightarrow> nat \<Rightarrow> jsnum" where
  "getDominantFrequency fd rate fft =
     (let (maxIndex, maxValue) =
            foldl (\<lambda>(mi, mv) i. if mv < unat (fd ! i) then (i, unat (fd ! i)) else (mi, mv))
                  (0, 0) [0..<length fd]
      in js_div (Num (real maxIndex * rate)) (Num (real fft)))"

text \<open>
  An element read of a typed array or array in arithmetic: out of range the read is
  \<open>undefined\<close>, which arithmetic turns into NaN.
\<close>

definition byte_at :: "8 word list \<Rightarrow> int \<Rightarrow> jsnum" where
  "byte_at a i = (if 0 \<le> i \<and> i < int (length a) then Num (magnitude (a ! nat i)) else NaN)"

definition num_at :: "jsnum list \<Rightarrow> nat \<Rightarrow> jsnum" where
  "num_at a i = (if i < length a then a ! i else NaN)"

text \<open>\<open>this.frequencyBands\<close>, in the key order \<open>Object.keys\<close> enumerates.\<close>

definition frequencyBands :: "(string \<times> real \<times> real) list" where
  "frequencyBands =
     [(''bass'', 0, 1 / 10), (''lowMid'', 1 / 10, 1 / 4), (''mid'', 1 / 4, 1 / 2),
      (''highMid'', 1 / 2, 3 / 4), (''treble'', 3 / 4, 1)]"

definition bandBins :: "nat \<Rightarrow> real \<times> real \<Rightarrow> int \<times> int" where
  "bandBins binCount band =
     (\<lfloor>fst band * real binCount\<rfloor>, \<lfloor>snd band * real binCount\<rfloor>)"

definition bandValue :: "8 word list \<Rightarrow> int \<times> int \<Rightarrow> jsnum" where
  "bandValue fd bins =
     (let startBin = fst bins; endBin = snd bins;
          sum = foldl (\<lambda>sum i. js_add sum (byte_at fd i)) (Num 0) [startBin..endBin - 1]
      in js_div (js_div sum (Num (of_int (endBin - startBin)))) (Num 255))"

definition analyzeFrequencyBands :: "8 word list \<Rightarrow> (string \<times> jsnum) list" where
  "analyzeFrequencyBands fd =
     map (\<lambda>(bandName, band). (bandName, bandValue fd (bandBins (length fd) band)))
         frequencyBands"

subsection \<open>Initialisation, the analysis cycle, disposal\<close>

text \<open>
  What the browser does during \<open>initialize\<close>: \<open>env_context\<close> is the context
  \<open>AudioUtils.getAudioContext\<close> returns (\<open>None\<close> when it throws), \<open>env_resume_ok\<close>
  whether \<open>resume\<close> is fulfilled, \<open>env_source_ok\<close> whether
  \<open>createMediaElementSource\<close> accepts the element. The other calls do not throw.
\<close>

record init_env =
  env_context :: "audio_context option"
  env_resume_ok :: bool
  env_source_ok :: bool

definition initialize :: "AudioAnalyzer \<Rightarrow> init_env \<Rightarrow> bool \<times> AudioAnalyzer" where
  "initialize st env =
     (case env_context env of
        None \<Rightarrow> (False, st)
      | Some ctx \<Rightarrow>
          let st1 = st\<lparr>audioContext := Some ctx\<rparr>
          in if suspended ctx \<and> \<not> env_resume_ok env then (False, st1)
             else
               let node = \<lparr> node_fftSize = fftSize,
                            node_smoothingTimeConstant = smoothingTimeConstant \<rparr>;
                   st2 = st1\<lparr>analyser := Some node\<rparr>
               in if \<not> source st2 \<and> \<not> env_source_ok env then (False, st2)
                  else
                    (True, st2\<lparr>source := True,
                               frequencyData := Some (replicate (frequencyBinCount node) 0),
                               timeData := Some (replicate (frequencyBinCount node) 0)\<rparr>))"

text \<open>
  What one cycle reads from outside: the byte the analyser node holds for each spectrum bin
  and each waveform sample, and the clock. \<open>getByteFrequencyData\<close> and
  \<open>getByteTimeDomainData\<close> overwrite the array they are given, element by element.
  The cycle is modelled in the arithmetic without rounding, \<open>exactArith\<close>.
\<close>

record audio_input =
  in_spectrum :: "nat \<Rightarrow> 8 word"
  in_waveform :: "nat \<Rightarrow> 8 word"
  in_now :: int

definition getByteData :: "(nat \<Rightarrow> 8 word) \<Rightarrow> 8 word list \<Rightarrow> 8 word list" where
  "getByteData src arr = map src [0..<length arr]"

definition analyze :: "AudioAnalyzer \<Rightarrow> audio_input \<Rightarrow> (js_error + AnalysisFrame) \<times> AudioAnalyzer" where
  "analyze st inp =
     (case analyser st of
        None \<Rightarrow> (Inr (currentAnalysis st), st)
      | Some node \<Rightarrow>
          (case frequencyData st of
             None \<Rightarrow> (Inl TypeError, st)
           | Some fd0 \<Rightarrow>
               let fd = getByteData (in_spectrum inp) fd0;
                   st1 = st\<lparr>frequencyData := Some fd\<rparr>
               in (case timeData st1 of
                     None \<Rightarrow> (Inl TypeError, st1)
                   | Some td0 \<Rightarrow>
                       let td = getByteData (in_waveform inp) td0;
                           st2 = st1\<lparr>timeData := Some td\<rparr>;
                           vol = calculateVolume td;
                           en = calculateEnergy fd;
                           (bt, st3) = detectBeat exactArith st2 en (in_now inp)
                       in (case audioContext st3 of
                             None \<Rightarrow> (Inl TypeError, st3)
                           | Some ctx \<Rightarrow>
                               let frame =
                                     \<lparr> volume = vol, energy = en, beat = bt,
                                       dominantFrequency =
                                         getDominantFrequency fd (sampleRate ctx) fftSize,
                                       bands = analyzeFrequencyBands fd,
                                       spectrum = fd, waveform = td \<rparr>
                               in (Inr frame, st3\<lparr>currentAnalysis := frame\<rparr>)))))"

definition dispose :: "AudioAnalyzer \<Rightarrow> AudioAnalyzer" where
  "dispose st =
     st\<lparr>source := False, analyser := None, audioContext := None,
        frequencyData := None, timeData := None, energyHistory := []\<rparr>"

subsection \<open>The visualisation series\<close>

definition smoothingFactor :: jsnum where
  "smoothingFactor = Num (7 / 10)"

text \<open>
  The loop of \<open>getSmoothedFrequencyData\<close> over the indices of \<open>frequencyData\<close>: a read
  past the end of \<open>lastFrequencyData\<close> is \<open>undefined\<close> and the write extends the array.
\<close>

fun smoothBins :: "jsnum list \<Rightarrow> 8 word list \<Rightarrow> jsnum list" where
  "smoothBins ls [] = ls"
| "smoothBins [] (b # bs) = lerp NaN (Num (magnitude b)) smoothingFactor # smoothBins [] bs"
| "smoothBins (l # ls) (b # bs) =
     lerp l (Num (magnitude b)) smoothingFactor # smoothBins ls bs"

definition getSmoothedFrequencyData :: "AudioAnalyzer \<Rightarrow> (js_error + jsnum list) \<times> AudioAnalyzer" where
  "getSmoothedFrequencyData st =
     (case frequencyData st of
        None \<Rightarrow> (Inl TypeError, st)
      | Some fd \<Rightarrow>
          (case lastFrequencyData st of
             None \<Rightarrow>
               let l = map (\<lambda>b. Num (magnitude b)) fd
               in (Inr l, st\<lparr>lastFrequencyData := Some l\<rparr>)
           | Some prev \<Rightarrow>
               let l = smoothBins prev fd
               in (Inr l, st\<lparr>lastFrequencyData := Some l\<rparr>)))"

definition barValue :: "jsnum list \<Rightarrow> nat \<Rightarrow> nat \<Rightarrow> jsnum" where
  "barValue smoothedData binSize i =
     (let start = i * binSize; end' = start + binSize;
          sum = foldl (\<lambda>sum j. js_add sum (num_at smoothedData j)) (Num 0) [start..<end'];
          val = js_div (js_div sum (Num (real binSize))) (Num 255)
      in Math_pow_07 val)"

text \<open>
  \<open>barCount\<close> is a natural number. For \<open>barCount = 0\<close> the loop does not run and the
  value of \<open>binSize\<close> is not used.
\<close>

definition getVisualizationData :: "AudioAnalyzer \<Rightarrow> nat \<Rightarrow> (js_error + jsnum list) \<times> AudioAnalyzer" where
  "getVisualizationData st barCount =
     (case getSmoothedFrequencyData st of
        (Inl err, st1) \<Rightarrow> (Inl err, st1)
      | (Inr smoothedData, st1) \<Rightarrow>
          let binSize = length smoothedData div barCount
          in (Inr (map (barValue smoothedData binSize) [0..<barCount]), st1))"

subsection \<open>Reachable states\<close>

text \<open>
  The states the extractor reaches from construction through its contract:
  \<open>initialize\<close>, \<open>analyze\<close>, \<open>getVisualizationData\<close> and \<open>dispose\<close>, in any order, with
  any outcome of the browser calls and any audio.
\<close>

inductive reachable :: "AudioAnalyzer \<Rightarrow> bool" where
  reach_new: "reachable AudioAnalyzer_new"
| reach_initialize: "reachable st \<Longrightarrow> reachable (snd (initialize st env))"
| reach_analyze: "reachable st \<Longrightarrow> reachable (snd (analyze st inp))"
| reach_series: "reachable st \<Longrightarrow> reachable (snd (getVisualizationData st barCount))"
| reach_dispose: "reachable st \<Longrightarrow> reachable (dispose st)"

text \<open>The states reached while no call of \<open>initialize\<close> has returned \<open>true\<close>.\<close>

inductive before_init :: "AudioAnalyzer \<Rightarrow> bool" where
  pre_new: "before_init AudioAnalyzer_new"
| pre_initialize:
    "before_init st \<Longrightarrow> fst (initialize st env) = False \<Longrightarrow> before_init (snd (initialize st env))"
| pre_analyze: "before_init st \<Longrightarrow> before_init (snd (analyze st inp))"
| pre_series: "before_init st \<Longrightarrow> before_init (snd (getVisualizationData st barCount))"
| pre_dispose: "before_init st \<Longrightarrow> before_init (dispose st)"

subsection \<open>Notions of the specification\<close>

text \<open>The bins of a spectrum in the index range \<open>[start, end)\<close>.\<close>

definition binsOf :: "'a list \<Rightarrow> int \<times> int \<Rightarrow> 'a list" where
  "binsOf fd r = take (nat (snd r - fst r)) (drop (nat (fst r)) fd)"

definition bandRanges :: "nat \<Rightarrow> (int \<times> int) list" where
  "bandRanges binCount = map (\<lambda>(bandName, band). bandBins binCount band) frequencyBands"

text \<open>
  The mean magnitude of a group of bins divided by 255, in JavaScript arithmetic: the
  mean of no bins is \<open>0 / 0\<close>.
\<close>

definition meanMagnitude255 :: "8 word list \<Rightarrow> jsnum" where
  "meanMagnitude255 bins =
     js_div (js_div (Num (sum_list (map (\<lambda>b. magnitude b) bins))) (Num (real (length bins))))
            (Num 255)"

text \<open>The finite values of a list of numbers.\<close>

definition finiteVals :: "jsnum list \<Rightarrow> real list" where
  "finiteVals vs = map (\<lambda>v. case v of Num x \<Rightarrow> x | _ \<Rightarrow> 0) vs"

text \<open>A bin blended 70% toward its new raw value, 30% retained.\<close>

definition blend :: "real \<Rightarrow> 8 word \<Rightarrow> real" where
  "blend old raw = (3 / 10) * old + (7 / 10) * magnitude raw"

definition specSmoothed :: "real list option \<Rightarrow> 8 word list \<Rightarrow> real list" where
  "specSmoothed persisted fd =
     (case persisted of
        None \<Rightarrow> map (\<lambda>b. magnitude b) fd
      | Some prev \<Rightarrow> map (\<lambda>(old, raw). blend old raw) (zip prev fd))"

text \<open>
  The series of the specification: \<open>n\<close> contiguous groups of \<open>length sm div n\<close> bins, the
  mean of each divided by 255 and raised to the power 0.7.
\<close>

definition specSeries :: "real list \<Rightarrow> nat \<Rightarrow> real list" where
  "specSeries sm n =
     (let k = length sm div n
      in map (\<lambda>i. (mean (take k (drop (i * k) sm)) / 255) powr (7 / 10)) [0..<n])"

text \<open>What holds of the extractor in every reachable state.\<close>

definition finiteIn :: "real \<Rightarrow> real \<Rightarrow> jsnum \<Rightarrow> bool" where
  "finiteIn lo hi v = (case v of Num x \<Rightarrow> lo \<le> x \<and> x \<le> hi | _ \<Rightarrow> False)"

definition extractorInv :: "AudioAnalyzer \<Rightarrow> bool" where
  "extractorInv st =
     (list_all (finiteIn 0 1) (energyHistory st)
      \<and> (case frequencyData st of None \<Rightarrow> timeData st = None
          | Some fd \<Rightarrow> length fd = fftSize div 2
              \<and> (case timeData st of None \<Rightarrow> False | Some td \<Rightarrow> length td = fftSize div 2))
      \<and> (case analyser st of None \<Rightarrow> True | Some node \<Rightarrow> audioContext st \<noteq> None)
      \<and> (case lastFrequencyData st of None \<Rightarrow> True
          | Some ls \<Rightarrow> length ls = fftSize div 2 \<and> list_all (finiteIn 0 255) ls))"

section \<open>Colour utilities (\<open>ColorUtils\<close>)\<close>

text \<open>
  The colour conversion is written in exact real arithmetic: where the program's doubles
  round differently a component can differ by one at a tie of \<open>Math.round\<close>. The
  properties below use only how many colours and components a palette has and whether a
  palette is returned at all, never the value of a component.
\<close>

text \<open>\<open>Math.round\<close> on a finite number.\<close>

definition Math_round :: "real \<Rightarrow> int" where
  "Math_round x = \<lfloor>x + 1 / 2\<rfloor>"

definition hue2rgb :: "real \<Rightarrow> real \<Rightarrow> real \<Rightarrow> real" where
  "hue2rgb p q t =
     (let t1 = (if t < 0 then t + 1 else t);
          t2 = (if 1 < t1 then t1 - 1 else t1)
      in if t2 < 1 / 6 then p + (q - p) * 6 * t2
         else if t2 < 1 / 2 then q
         else if t2 < 2 / 3 then p + (q - p) * (2 / 3 - t2) * 6
         else p)"

definition hslToRgb :: "real \<Rightarrow> real \<Rightarrow> real \<Rightarrow> int list" where
  "hslToRgb h0 s0 l0 =
     (let h = h0 / 360; s = s0 / 100; l = l0 / 100;
          q = (if l < 1 / 2 then l * (1 + s) else l + s - l * s);
          p = 2 * l - q;
          r = hue2rgb p q (h + 1 / 3);
          g = hue2rgb p q h;
          b = hue2rgb p q (h - 1 / 3)
      in [Math_round (r * 255), Math_round (g * 255), Math_round (b * 255)])"

record hsl =
  hsl_h :: real
  hsl_s :: real
  hsl_l :: real

text \<open>The own properties of the object literal \<open>palettes\<close>.\<close>

definition palettes :: "(string \<times> hsl list) list" where
  "palettes =
     [(''energetic'',
         [\<lparr>hsl_h = 0, hsl_s = 85, hsl_l = 60\<rparr>, \<lparr>hsl_h = 30, hsl_s = 90, hsl_l = 55\<rparr>,
          \<lparr>hsl_h = 60, hsl_s = 80, hsl_l = 65\<rparr>, \<lparr>hsl_h = 340, hsl_s = 85, hsl_l = 60\<rparr>]),
      (''calm'',
         [\<lparr>hsl_h = 210, hsl_s = 60, hsl_l = 70\<rparr>, \<lparr>hsl_h = 180, hsl_s = 40, hsl_l = 75\<rparr>,
          \<lparr>hsl_h = 120, hsl_s = 30, hsl_l = 80\<rparr>, \<lparr>hsl_h = 240, hsl_s = 45, hsl_l = 75\<rparr>]),
      (''melancholy'',
         [\<lparr>hsl_h = 240, hsl_s = 30, hsl_l = 40\<rparr>, \<lparr>hsl_h = 260, hsl_s = 35, hsl_l = 45\<rparr>,
          \<lparr>hsl_h = 200, hsl_s = 25, hsl_l = 50\<rparr>, \<lparr>hsl_h = 280, hsl_s = 40, hsl_l = 35\<rparr>]),
      (''uplifting'',
         [\<lparr>hsl_h = 50, hsl_s = 80, hsl_l = 65\<rparr>, \<lparr>hsl_h = 120, hsl_s = 70, hsl_l = 60\<rparr>,
          \<lparr>hsl_h = 200, hsl_s = 85, hsl_l = 65\<rparr>, \<lparr>hsl_h = 300, hsl_s = 75, hsl_l = 70\<rparr>]),
      (''neutral'',
         [\<lparr>hsl_h = 220, hsl_s = 50, hsl_l = 60\<rparr>, \<lparr>hsl_h = 280, hsl_s = 60, hsl_l = 65\<rparr>,
          \<lparr>hsl_h = 320, hsl_s = 70, hsl_l = 60\<rparr>, \<lparr>hsl_h = 180, hsl_s = 55, hsl_l = 65\<rparr>])]"

text \<open>
  \<open>palettes[mood]\<close> is a property read on an ordinary object: a key that is not an own
  property is looked up on \<open>Object.prototype\<close>, whose properties are functions (and, for
  \<open>__proto__\<close>, the prototype object itself): truthy values without a \<open>map\<close> method.
\<close>

definition objectPrototypeKeys :: "string list" where
  "objectPrototypeKeys =
     [''constructor'', ''hasOwnProperty'', ''isPrototypeOf'', ''propertyIsEnumerable'',
      ''toLocaleString'', ''toString'', ''valueOf'', ''__proto__'',
      ''__defineGetter__'', ''__defineSetter__'', ''__lookupGetter__'', ''__lookupSetter__'']"

datatype palette_property = OwnPalette "hsl list" | InheritedProperty | UndefinedProperty

definition palettesGet :: "string \<Rightarrow> palette_property" where
  "palettesGet mood =
     (case map_of palettes mood of
        Some p \<Rightarrow> OwnPalette p
      | None \<Rightarrow> if mood \<in> set objectPrototypeKeys then InheritedProperty
                else UndefinedProperty)"

definition adjustColor :: "real \<Rightarrow> hsl \<Rightarrow> int list" where
  "adjustColor en color =
     (let s = max 20 (min 100 (hsl_s color * (1 / 2 + en * (1 / 2))));
          l = max 30 (min 80 (hsl_l color * (6 / 10 + en * (4 / 10))))
      in hslToRgb (hsl_h color) s l)"

text \<open>
  \<open>generateMoodPalette(mood, energy)\<close> for a string \<open>mood\<close> and a finite \<open>energy\<close>:
  \<open>basePalette.map\<close> throws a TypeError when \<open>basePalette\<close> is an inherited property.
\<close>

definition generateMoodPalette :: "string \<Rightarrow> real \<Rightarrow> js_error + int list list" where
  "generateMoodPalette mood en =
     (case palettesGet mood of
        OwnPalette basePalette \<Rightarrow> Inr (map (adjustColor en) basePalette)
      | InheritedProperty \<Rightarrow> Inl TypeError
      | UndefinedProperty \<Rightarrow>
          (case palettesGet ''neutral'' of
             OwnPalette basePalette \<Rightarrow> Inr (map (adjustColor en) basePalette)
           | _ \<Rightarrow> Inl TypeError))"

section \<open>The raster visualizer (\<open>Visualizer2D\<close>)\<close>

text \<open>
  The visualizer's own state. Calls on the canvas context produce output only and are not
  part of it; whether such a call throws is an input of the frame. \<open>v2_audioAnalyzer\<close>
  records whether an analyzer has been set. The closure of
  \<open>PerformanceUtils.createAnimationLoop\<close> is the record \<open>anim_loop\<close>. The host's
  animation-frame queue is represented by \<open>v2_pending\<close>, the requests of this
  visualizer that are scheduled and neither run nor cancelled, and \<open>v2_nextRequest\<close>,
  the next handle \<open>requestAnimationFrame\<close> returns (handles are positive).
\<close>

record particle =
  p_x :: jsnum
  p_y :: jsnum
  p_vx :: real
  p_vy :: real
  p_size :: real
  p_life :: real
  p_maxLife :: real
  p_decay :: real

record anim_loop =
  loop_isRunning :: bool
  loop_animationId :: "nat option"

record Visualizer2D =
  v2_width :: real
  v2_height :: real
  v2_animationLoop :: "anim_loop option"
  v2_isRunning :: bool
  v2_colorPalette :: "int list list"
  v2_currentColorIndex :: nat
  v2_colorTransition :: real
  v2_particles :: "particle list"
  v2_currentMode :: nat
  v2_modeTransition :: real
  v2_beatIntensity :: real
  v2_pulseScale :: real
  v2_gradientAngle :: jsnum
  v2_frameCount :: nat
  v2_lastFpsTime :: real
  v2_fps :: int
  v2_audioAnalyzer :: bool
  v2_pending :: "nat set"
  v2_nextRequest :: nat

definition maxParticles :: nat where
  "maxParticles = 150"

definition modes :: "string list" where
  "modes = [''bars'', ''circles'', ''waves'', ''particles'', ''spiral'']"

definition beatDecay2D :: real where
  "beatDecay2D = 95 / 100"

text \<open>\<open>MathUtils.lerp\<close> on finite numbers.\<close>

definition lerpFinite :: "real \<Rightarrow> real \<Rightarrow> real \<Rightarrow> real" where
  "lerpFinite start end' factor = start + (end' - start) * factor"

text \<open>
  \<open>rnd\<close> is the sequence of values the calls of \<open>Math.random()\<close> return during one
  operation; the properties of the object literal are evaluated in source order.
\<close>

definition initParticle :: "real \<Rightarrow> real \<Rightarrow> (nat \<Rightarrow> real) \<Rightarrow> nat \<Rightarrow> particle" where
  "initParticle w h rnd i =
     \<lparr> p_x = Num (rnd (8 * i) * w),
       p_y = Num (rnd (8 * i + 1) * h),
       p_vx = (rnd (8 * i + 2) - 1 / 2) * 2,
       p_vy = (rnd (8 * i + 3) - 1 / 2) * 2,
       p_size = rnd (8 * i + 4) * 3 + 1,
       p_life = rnd (8 * i + 5),
       p_maxLife = rnd (8 * i + 6) * (1 / 2) + 1 / 2,
       p_decay = rnd (8 * i + 7) * (2 / 100) + 5 / 1000 \<rparr>"

definition initializeParticles :: "Visualizer2D \<Rightarrow> (nat \<Rightarrow> real) \<Rightarrow> Visualizer2D" where
  "initializeParticles st rnd =
     st\<lparr>v2_particles :=
          map (initParticle (v2_width st) (v2_height st) rnd) [0..<maxParticles]\<rparr>"

text \<open>
  The constructor, on a canvas of the given size: \<open>resize\<close>, then \<open>initializeParticles\<close>.
  \<open>generateMoodPalette('neutral')\<close> does not throw.
\<close>

definition Visualizer2D_new :: "real \<Rightarrow> real \<Rightarrow> (nat \<Rightarrow> real) \<Rightarrow> Visualizer2D" where
  "Visualizer2D_new w h rnd =
     initializeParticles
       \<lparr> v2_width = w, v2_height = h,
         v2_animationLoop = None, v2_isRunning = False,
         v2_colorPalette =
           (case generateMoodPalette ''neutral'' (1 / 2) of Inr p \<Rightarrow> p | Inl err \<Rightarrow> []),
         v2_currentColorIndex = 0, v2_colorTransition = 0,
         v2_particles = [],
         v2_currentMode = 0, v2_modeTransition = 0,
         v2_beatIntensity = 0, v2_pulseScale = 1,
         v2_gradientAngle = Num 0,
         v2_frameCount = 0, v2_lastFpsTime = 0, v2_fps = 60,
         v2_audioAnalyzer = False,
         v2_pending = {}, v2_nextRequest = 1 \<rparr>
       rnd"

definition resize :: "Visualizer2D \<Rightarrow> real \<Rightarrow> real \<Rightarrow> Visualizer2D" where
  "resize st w h = st\<lparr>v2_width := w, v2_height := h\<rparr>"

definition updateColorPalette2D :: "Visualizer2D \<Rightarrow> string \<Rightarrow> real \<Rightarrow> Visualizer2D" where
  "updateColorPalette2D st mood en =
     (case generateMoodPalette mood en of
        Inr p \<Rightarrow> st\<lparr>v2_colorPalette := p\<rparr>
      | Inl err \<Rightarrow> st)"

definition setAudioAnalyzer2D :: "Visualizer2D \<Rightarrow> Visualizer2D" where
  "setAudioAnalyzer2D st = st\<lparr>v2_audioAnalyzer := True\<rparr>"

subsection \<open>Start and stop\<close>

definition start2D :: "Visualizer2D \<Rightarrow> Visualizer2D" where
  "start2D st =
     (if v2_isRunning st then st
      else st\<lparr>v2_isRunning := True,
              v2_animationLoop :=
                Some \<lparr> loop_isRunning = True, loop_animationId = Some (v2_nextRequest st) \<rparr>,
              v2_pending := insert (v2_nextRequest st) (v2_pending st),
              v2_nextRequest := Suc (v2_nextRequest st)\<rparr>)"

text \<open>\<open>stop\<close> of the loop: \<open>cancelAnimationFrame\<close> is called when \<open>animationId\<close> is truthy.\<close>

definition loopStop :: "anim_loop \<Rightarrow> nat set \<Rightarrow> anim_loop \<times> nat set" where
  "loopStop lp pending =
     (lp\<lparr>loop_isRunning := False\<rparr>,
      (case loop_animationId lp of
         None \<Rightarrow> pending
       | Some h \<Rightarrow> if h \<noteq> 0 then pending - {h} else pending))"

definition stop2D :: "Visualizer2D \<Rightarrow> Visualizer2D" where
  "stop2D st =
     (let st1 = st\<lparr>v2_isRunning := False\<rparr>
      in case v2_animationLoop st1 of
           None \<Rightarrow> st1
         | Some lp \<Rightarrow>
             st1\<lparr>v2_animationLoop := Some (fst (loopStop lp (v2_pending st1))),
                 v2_pending := snd (loopStop lp (v2_pending st1))\<rparr>)"

definition dispose2D :: "Visualizer2D \<Rightarrow> Visualizer2D" where
  "dispose2D st =
     (let st1 = stop2D st
      in case v2_animationLoop st1 of
           None \<Rightarrow> st1
         | Some lp \<Rightarrow>
             st1\<lparr>v2_animationLoop := None,
                 v2_pending := snd (loopStop lp (v2_pending st1))\<rparr>)"

subsection \<open>The frame\<close>

definition updateFPS :: "Visualizer2D \<Rightarrow> real \<Rightarrow> Visualizer2D" where
  "updateFPS st timestamp =
     (let st1 = st\<lparr>v2_frameCount := Suc (v2_frameCount st)\<rparr>
      in if 1000 \<le> timestamp - v2_lastFpsTime st1
         then st1\<lparr>v2_fps :=
                    Math_round (real (v2_frameCount st1) * 1000 / (timestamp - v2_lastFpsTime st1)),
                  v2_frameCount := 0,
                  v2_lastFpsTime := timestamp\<rparr>
         else st1)"

definition switchMode :: "Visualizer2D \<Rightarrow> Visualizer2D" where
  "switchMode st =
     st\<lparr>v2_currentMode := (v2_currentMode st + 1) mod length modes, v2_modeTransition := 1\<rparr>"

text \<open>
  \<open>rnd 0\<close> is the value of the one call of \<open>Math.random()\<close>, made on a beat. The palette
  always holds four colours, so the modulus of the colour index is not zero.
\<close>

definition updateVisualState :: "Visualizer2D \<Rightarrow> AnalysisFrame \<Rightarrow> (nat \<Rightarrow> real) \<Rightarrow> Visualizer2D" where
  "updateVisualState st analysis rnd =
     (let st1 = (if beat analysis
                 then (let s = st\<lparr>v2_beatIntensity := 1, v2_pulseScale := 12 / 10\<rparr>
                       in if rnd 0 < 1 / 10 then switchMode s else s)
                 else st);
          st2 = st1\<lparr>v2_beatIntensity := v2_beatIntensity st1 * beatDecay2D\<rparr>;
          st3 = st2\<lparr>v2_pulseScale := lerpFinite (v2_pulseScale st2) 1 (1 / 10)\<rparr>;
          st4 = st3\<lparr>v2_colorTransition := v2_colorTransition st3 + 1 / 100\<rparr>;
          st5 = (if 1 \<le> v2_colorTransition st4
                 then st4\<lparr>v2_colorTransition := 0,
                          v2_currentColorIndex :=
                            (v2_currentColorIndex st4 + 1) mod length (v2_colorPalette st4)\<rparr>
                 else st4)
      in st5\<lparr>v2_gradientAngle :=
               js_add (v2_gradientAngle st5) (js_mul (energy analysis) (Num (2 / 100)))\<rparr>)"

definition wrapCoord :: "jsnum \<Rightarrow> real \<Rightarrow> jsnum" where
  "wrapCoord v bound =
     (let v1 = (if js_lt v (Num 0) then Num bound else v)
      in if js_gt v1 (Num bound) then Num 0 else v1)"

text \<open>
  The update of one particle in \<open>renderParticles\<close>; \<open>k\<close> counts the random values used so
  far. With empty data the index is NaN and the read \<open>undefined\<close>.
\<close>

definition updateParticle ::
  "real \<Rightarrow> real \<Rightarrow> jsnum list \<Rightarrow> (nat \<Rightarrow> real) \<Rightarrow> nat \<Rightarrow> nat \<Rightarrow> particle \<Rightarrow> particle \<times> nat" where
  "updateParticle w h data rnd k index p =
     (let audioInfluence = (if data = [] then NaN else data ! (index mod length data));
          p1 = p\<lparr>p_x := js_add (p_x p) (js_add (Num (p_vx p)) (js_mul audioInfluence (Num 2))),
                 p_y := js_add (p_y p) (js_add (Num (p_vy p)) (js_mul audioInfluence (Num 2))),
                 p_life := p_life p - p_decay p\<rparr>;
          (p2, k') =
            (if p_life p1 \<le> 0
             then (p1\<lparr>p_life := p_maxLife p1,
                       p_x := Num (rnd k * w),
                       p_y := Num (rnd (k + 1) * h),
                       p_vx := (rnd (k + 2) - 1 / 2) * 2,
                       p_vy := (rnd (k + 3) - 1 / 2) * 2\<rparr>, k + 4)
             else (p1, k))
      in (p2\<lparr>p_x := wrapCoord (p_x p2) w, p_y := wrapCoord (p_y p2) h\<rparr>, k'))"

text \<open>
  The \<open>forEach\<close> over the pool: each particle is updated in place and then drawn;
  \<open>draws index\<close> tells whether the canvas calls for that particle return. A call that
  throws ends the loop.
\<close>

fun particlesLoop ::
  "real \<Rightarrow> real \<Rightarrow> jsnum list \<Rightarrow> (nat \<Rightarrow> bool) \<Rightarrow> (nat \<Rightarrow> real) \<Rightarrow> nat \<Rightarrow> nat \<Rightarrow> particle list
     \<Rightarrow> bool \<times> particle list" where
  "particlesLoop w h data draws rnd k index [] = (True, [])"
| "particlesLoop w h data draws rnd k index (p # ps) =
     (let (p', k') = updateParticle w h data rnd k index p
      in if draws index
         then (let (ok, ps') = particlesLoop w h data draws rnd k' (Suc index) ps
               in (ok, p' # ps'))
         else (False, p' # ps))"

definition renderParticles ::
  "Visualizer2D \<Rightarrow> jsnum list \<Rightarrow> (nat \<Rightarrow> bool) \<Rightarrow> (nat \<Rightarrow> real) \<Rightarrow> nat \<Rightarrow> bool \<times> Visualizer2D" where
  "renderParticles st data draws rnd k =
     (let (ok, ps) = particlesLoop (v2_width st) (v2_height st) data draws rnd k 0 (v2_particles st)
      in (ok, st\<lparr>v2_particles := ps\<rparr>))"

definition updateTransitions :: "Visualizer2D \<Rightarrow> Visualizer2D" where
  "updateTransitions st = st\<lparr>v2_modeTransition := max 0 (v2_modeTransition st - 2 / 100)\<rparr>"

text \<open>
  What one call of \<open>render\<close> takes from outside: the timestamp, the outcome of
  \<open>analyze()\<close> and \<open>getVisualizationData(64)\<close> (an error when one of them throws), the
  random values, and whether the drawing stages return.
\<close>

record frame_env =
  fe_timestamp :: real
  fe_analysis :: "js_error + (AnalysisFrame \<times> jsnum list)"
  fe_random :: "nat \<Rightarrow> real"
  fe_background_ok :: bool
  fe_mode_ok :: bool
  fe_particle_ok :: "nat \<Rightarrow> bool"
  fe_effects_ok :: bool

text \<open>\<open>render\<close> returns whether it returned normally, and the state it leaves.\<close>

definition render :: "Visualizer2D \<Rightarrow> frame_env \<Rightarrow> bool \<times> Visualizer2D" where
  "render st env =
     (if \<not> v2_audioAnalyzer st \<or> \<not> v2_isRunning st then (True, st)
      else
        let st1 = updateFPS st (fe_timestamp env)
        in case fe_analysis env of
             Inl err \<Rightarrow> (False, st1)
           | Inr (analysis, visualData) \<Rightarrow>
               let st2 = updateVisualState st1 analysis (fe_random env)
               in if \<not> fe_background_ok env then (False, st2)
                  else
                    let (ok, st3) =
                          (if v2_currentMode st2 < length modes
                           then (if modes ! v2_currentMode st2 = ''particles''
                                 then renderParticles st2 visualData (fe_particle_ok env)
                                        (fe_random env) (if beat analysis then 1 else 0)
                                 else (fe_mode_ok env, st2))
                           else (True, st2))
                    in if \<not> ok then (False, st3)
                       else if \<not> fe_effects_ok env then (False, st3)
                       else (True, updateTransitions st3))"

text \<open>
  The host runs the scheduled callback of the loop: \<open>loop\<close> calls \<open>render\<close> when the loop
  is running and then requests the next frame; an exception of \<open>render\<close> leaves \<open>loop\<close>
  before the request.
\<close>

definition tick2D :: "Visualizer2D \<Rightarrow> frame_env \<Rightarrow> Visualizer2D" where
  "tick2D st env =
     (case v2_animationLoop st of
        None \<Rightarrow> st
      | Some lp \<Rightarrow>
          (case loop_animationId lp of
             None \<Rightarrow> st
           | Some h \<Rightarrow>
               if h \<notin> v2_pending st then st
               else
                 let st1 = st\<lparr>v2_pending := v2_pending st - {h}\<rparr>
                 in if \<not> loop_isRunning lp then st1
                    else
                      let (ok, st2) = render st1 env
                      in if \<not> ok then st2
                         else st2\<lparr>v2_animationLoop :=
                                    Some (lp\<lparr>loop_animationId := Some (v2_nextRequest st2)\<rparr>),
                                  v2_pending := insert (v2_nextRequest st2) (v2_pending st2),
                                  v2_nextRequest := Suc (v2_nextRequest st2)\<rparr>))"

datatype event2D =
    Start2D
  | Stop2D
  | Tick2D frame_env
  | SetAudioAnalyzer2D
  | UpdateColorPalette2D string real
  | Resize2D real real
  | Dispose2D

fun step2D :: "Visualizer2D \<Rightarrow> event2D \<Rightarrow> Visualizer2D" where
  "step2D st Start2D = start2D st"
| "step2D st Stop2D = stop2D st"
| "step2D st (Tick2D env) = tick2D st env"
| "step2D st SetAudioAnalyzer2D = setAudioAnalyzer2D st"
| "step2D st (UpdateColorPalette2D mood en) = updateColorPalette2D st mood en"
| "step2D st (Resize2D w h) = resize st w h"
| "step2D st Dispose2D = dispose2D st"

definition run2D :: "Visualizer2D \<Rightarrow> event2D list \<Rightarrow> Visualizer2D" where
  "run2D st evs = foldl step2D st evs"

section \<open>The scene visualizer (\<open>Visualizer3D\<close>)\<close>

text \<open>
  A mesh is an object of the scene graph: it is identified by \<open>uid\<close>, a number no other
  object of the run has, and carries the \<open>userData\<close> of its variant. Its transform, geometry
  and material belong to the renderer and are not modelled, nor are the camera and the
  lights beyond their place among the children of the scene; what the model keeps of
  \<open>dispose()\<close> is the log \<open>v3_disposed\<close> of the meshes whose geometry and material were
  released. The palette always holds four colours, so the material colour
  \<open>colorPalette[i % colorPalette.length]\<close> exists. The host's animation-frame queue is
  represented as for the raster visualizer. The operations modelled are those of a
  visualizer in use: \<open>dispose\<close>, after which the scene is gone and the visualizer cannot
  run again, is not among them.
\<close>

datatype geometry = Bars | Sphere | Tunnel | Wave

datatype userData =
    BarData real nat
  | SphereData "real \<times> real \<times> real" nat
  | TunnelData nat nat real real
  | WaveData nat nat

record mesh =
  uid :: nat
  userData :: userData

record Visualizer3D =
  v3_scene :: "nat list"
  v3_visualObjects :: "mesh list"
  v3_geometryType :: geometry
  v3_animationId :: "nat option"
  v3_isRunning :: bool
  v3_time :: real
  v3_colorPalette :: "int list list"
  v3_beatIntensity :: real
  v3_audioAnalyzer :: bool
  v3_nextUid :: nat
  v3_disposed :: "nat list"
  v3_pending :: "nat set"
  v3_nextRequest :: nat

definition beatDecay3D :: real where
  "beatDecay3D = 95 / 100"

text \<open>\<open>scene.remove(obj)\<close> takes the object out of the children, \<open>scene.add(obj)\<close> appends it.\<close>

definition clearScene :: "Visualizer3D \<Rightarrow> Visualizer3D" where
  "clearScene st =
     st\<lparr>v3_disposed := v3_disposed st @ map uid (v3_visualObjects st),
        v3_scene := foldl (\<lambda>children obj. remove1 (uid obj) children)
                      (v3_scene st) (v3_visualObjects st),
        v3_visualObjects := []\<rparr>"

text \<open>One \<open>new THREE.Mesh\<close>, \<open>visualObjects.push\<close> and \<open>scene.add\<close>.\<close>

definition addMesh :: "Visualizer3D \<Rightarrow> userData \<Rightarrow> Visualizer3D" where
  "addMesh st d =
     st\<lparr>v3_visualObjects := v3_visualObjects st @ [\<lparr>uid = v3_nextUid st, userData = d\<rparr>],
        v3_scene := v3_scene st @ [v3_nextUid st],
        v3_nextUid := Suc (v3_nextUid st)\<rparr>"

definition barData :: "nat \<Rightarrow> userData" where
  "barData i = BarData (real i / 64 * pi * 2) i"

definition createBarsGeometry :: "Visualizer3D \<Rightarrow> Visualizer3D" where
  "createBarsGeometry st =
     (foldl addMesh (clearScene st) (map barData [0..<64]))\<lparr>v3_geometryType := Bars\<rparr>"

definition sphereData :: "nat \<Rightarrow> userData" where
  "sphereData i =
     (let phi = arccos (- 1 + 2 * real i / 100);
          theta = sqrt (100 * pi) * phi
      in SphereData (30 * sin phi * cos theta, 30 * sin phi * sin theta, 30 * cos phi) i)"

definition createSphereGeometry :: "Visualizer3D \<Rightarrow> Visualizer3D" where
  "createSphereGeometry st =
     (foldl addMesh (clearScene st) (map sphereData [0..<100]))\<lparr>v3_geometryType := Sphere\<rparr>"

definition tunnelData :: "nat \<Rightarrow> nat \<Rightarrow> userData" where
  "tunnelData ring point =
     TunnelData ring point (15 + sin (real ring * (1 / 2)) * 5) (real point / 32 * pi * 2)"

definition createTunnelGeometry :: "Visualizer3D \<Rightarrow> Visualizer3D" where
  "createTunnelGeometry st =
     (foldl addMesh (clearScene st)
        (concat (map (\<lambda>ring. map (tunnelData ring) [0..<32]) [0..<20])))
     \<lparr>v3_geometryType := Tunnel\<rparr>"

definition createWaveGeometry :: "Visualizer3D \<Rightarrow> Visualizer3D" where
  "createWaveGeometry st =
     (foldl addMesh (clearScene st)
        (concat (map (\<lambda>x. map (WaveData x) [0..<32]) [0..<32])))
     \<lparr>v3_geometryType := Wave\<rparr>"

definition switchGeometry :: "Visualizer3D \<Rightarrow> Visualizer3D" where
  "switchGeometry st =
     (case v3_geometryType st of
        Bars \<Rightarrow> createSphereGeometry st
      | Sphere \<Rightarrow> createTunnelGeometry st
      | Tunnel \<Rightarrow> createWaveGeometry st
      | Wave \<Rightarrow> createBarsGeometry st)"

text \<open>
  The constructor with \<open>initialize\<close>: \<open>setupLights\<close> adds the ambient light, the main light
  and four point lights to the empty scene, then the bars are created.
\<close>

definition Visualizer3D_new :: Visualizer3D where
  "Visualizer3D_new =
     createBarsGeometry
       \<lparr> v3_scene = [0, 1, 2, 3, 4, 5], v3_visualObjects = [], v3_geometryType = Bars,
         v3_animationId = None, v3_isRunning = False, v3_time = 0,
         v3_colorPalette =
           (case generateMoodPalette ''neutral'' (1 / 2) of Inr p \<Rightarrow> p | Inl err \<Rightarrow> []),
         v3_beatIntensity = 0, v3_audioAnalyzer = False,
         v3_nextUid = 6, v3_disposed = [],
         v3_pending = {}, v3_nextRequest = 1 \<rparr>"

text \<open>
  \<open>updateVisuals\<close>: the beat sets the intensity and may switch the variant; the update of
  the variant moves and recolours the meshes and leaves the modelled state as it is.
\<close>

definition updateVisuals :: "Visualizer3D \<Rightarrow> AnalysisFrame \<Rightarrow> (nat \<Rightarrow> real) \<Rightarrow> Visualizer3D" where
  "updateVisuals st analysis rnd =
     (if beat analysis
      then (let s = st\<lparr>v3_beatIntensity := 1\<rparr>
            in if rnd 0 < 5 / 100 then switchGeometry s else s)
      else st)"

text \<open>
  What one call of \<open>animate\<close> takes from outside: the outcome of \<open>analyze()\<close> and
  \<open>getVisualizationData(64)\<close>, the random values, and whether the update of the variant,
  of the lights and of the camera returns.
\<close>

record frame3_env =
  fe3_analysis :: "js_error + (AnalysisFrame \<times> jsnum list)"
  fe3_random :: "nat \<Rightarrow> real"
  fe3_update_ok :: bool

text \<open>
  \<open>animate\<close> requests the next frame first; an exception later in the frame leaves the
  rest of the frame undone.
\<close>

definition animate :: "Visualizer3D \<Rightarrow> frame3_env \<Rightarrow> Visualizer3D" where
  "animate st env =
     (if \<not> v3_isRunning st then st
      else
        let st1 = st\<lparr>v3_animationId := Some (v3_nextRequest st),
                      v3_pending := insert (v3_nextRequest st) (v3_pending st),
                      v3_nextRequest := Suc (v3_nextRequest st)\<rparr>;
            st2 = st1\<lparr>v3_time := v3_time st1 + 16 / 1000\<rparr>
        in if v3_audioAnalyzer st2
           then (case fe3_analysis env of
                   Inl err \<Rightarrow> st2
                 | Inr (analysis, visualData) \<Rightarrow>
                     let st3 = updateVisuals st2 analysis (fe3_random env)
                     in if \<not> fe3_update_ok env then st3
                        else st3\<lparr>v3_beatIntensity := v3_beatIntensity st3 * beatDecay3D\<rparr>)
           else st2\<lparr>v3_beatIntensity := v3_beatIntensity st2 * beatDecay3D\<rparr>)"

definition start3D :: "Visualizer3D \<Rightarrow> frame3_env \<Rightarrow> Visualizer3D" where
  "start3D st env = (if v3_isRunning st then st else animate (st\<lparr>v3_isRunning := True\<rparr>) env)"

definition stop3D :: "Visualizer3D \<Rightarrow> Visualizer3D" where
  "stop3D st =
     (let st1 = st\<lparr>v3_isRunning := False\<rparr>
      in case v3_animationId st1 of
           None \<Rightarrow> st1
         | Some h \<Rightarrow>
             if h \<noteq> 0 then st1\<lparr>v3_pending := v3_pending st1 - {h}, v3_animationId := None\<rparr>
             else st1)"

text \<open>The host runs the scheduled callback with handle \<open>h\<close>.\<close>

definition tick3D :: "Visualizer3D \<Rightarrow> nat \<Rightarrow> frame3_env \<Rightarrow> Visualizer3D" where
  "tick3D st h env =
     (if h \<in> v3_pending st then animate (st\<lparr>v3_pending := v3_pending st - {h}\<rparr>) env else st)"

definition updateColorPalette3D :: "Visualizer3D \<Rightarrow> string \<Rightarrow> real \<Rightarrow> Visualizer3D" where
  "updateColorPalette3D st mood en =
     (case generateMoodPalette mood en of
        Inr p \<Rightarrow> st\<lparr>v3_colorPalette := p\<rparr>
      | Inl err \<Rightarrow> st)"

definition setAudioAnalyzer3D :: "Visualizer3D \<Rightarrow> Visualizer3D" where
  "setAudioAnalyzer3D st = st\<lparr>v3_audioAnalyzer := True\<rparr>"

datatype event3D =
    Start3D frame3_env
  | Stop3D
  | Tick3D nat frame3_env
  | SetAudioAnalyzer3D
  | UpdateColorPalette3D string real

fun step3D :: "Visualizer3D \<Rightarrow> event3D \<Rightarrow> Visualizer3D" where
  "step3D st (Start3D env) = start3D st env"
| "step3D st Stop3D = stop3D st"
| "step3D st (Tick3D h env) = tick3D st h env"
| "step3D st SetAudioAnalyzer3D = setAudioAnalyzer3D st"
| "step3D st (UpdateColorPalette3D mood en) = updateColorPalette3D st mood en"

definition run3D :: "Visualizer3D \<Rightarrow> event3D list \<Rightarrow> Visualizer3D" where
  "run3D st evs = foldl step3D st evs"

subsection \<open>Invariants of the visualizers\<close>

text \<open>
  Every scheduled frame request is the one the loop remembers, and nothing is scheduled
  while the visualizer is not running.
\<close>

definition scheduled2D :: "Visualizer2D \<Rightarrow> bool" where
  "scheduled2D st =
     (v2_nextRequest st \<noteq> 0
      \<and> (v2_isRunning st \<or> v2_pending st = {})
      \<and> (case v2_animationLoop st of
            None \<Rightarrow> v2_pending st = {}
          | Some lp \<Rightarrow>
              (case loop_animationId lp of
                 None \<Rightarrow> v2_pending st = {}
               | Some h \<Rightarrow> h \<noteq> 0 \<and> h < v2_nextRequest st \<and> v2_pending st \<subseteq> {h})))"

definition scheduled3D :: "Visualizer3D \<Rightarrow> bool" where
  "scheduled3D st =
     (v3_nextRequest st \<noteq> 0
      \<and> (v3_isRunning st \<or> v3_pending st = {})
      \<and> (case v3_animationId st of
            None \<Rightarrow> v3_pending st = {}
          | Some h \<Rightarrow> h \<noteq> 0 \<and> h < v3_nextRequest st \<and> v3_pending st \<subseteq> {h}))"

text \<open>
  The children of the scene are distinct objects, and every object that exists was
  created before the next one to be created.
\<close>

definition sceneWf :: "Visualizer3D \<Rightarrow> bool" where
  "sceneWf st =
     (distinct (v3_scene st)
      \<and> list_all (\<lambda>u. u < v3_nextUid st) (v3_scene st)
      \<and> list_all (\<lambda>obj. uid obj < v3_nextUid st) (v3_visualObjects st))"

subsection \<open>Notions of the specification for the scene\<close>

text \<open>The number of visual objects the specification gives each variant.\<close>

fun variantCount :: "geometry \<Rightarrow> nat" where
  "variantCount Bars = 64"
| "variantCount Sphere = 100"
| "variantCount Tunnel = 20 * 32"
| "variantCount Wave = 32 * 32"

text \<open>
  The state \<open>st'\<close> holds none of the visual objects of \<open>st\<close>: none is a child of the scene
  or in the collection, all were disposed of, and the children of the scene are those of
  \<open>st\<close> that were not visual objects, with the visual objects of \<open>st'\<close>.
\<close>

definition replacesAll :: "Visualizer3D \<Rightarrow> Visualizer3D \<Rightarrow> bool" where
  "replacesAll st st' =
     (uid ` set (v3_visualObjects st) \<inter> set (v3_scene st') = {}
      \<and> uid ` set (v3_visualObjects st) \<inter> uid ` set (v3_visualObjects st') = {}
      \<and> uid ` set (v3_visualObjects st) \<subseteq> set (v3_disposed st')
      \<and> set (v3_scene st')
          = (set (v3_scene st) - uid ` set (v3_visualObjects st))
            \<union> uid ` set (v3_visualObjects st'))"

definition sceneInv :: "Visualizer3D \<Rightarrow> bool" where
  "sceneInv st =
     (sceneWf st \<and> length (v3_visualObjects st) = variantCount (v3_geometryType st))"

section \<open>Properties\<close>

subsection \<open>JavaScript arithmetic on finite values\<close>

lemma js_sub_Num [simp]: "js_sub (Num a) (Num b) = Num (a - b)"
  by (simp add: js_sub_def)

lemma foldl_js_add_Num: "foldl js_add (Num a) (map Num xs) = Num (a + sum_list xs)"
  by (induction xs arbitrary: a) (simp_all add: add.assoc)

lemma foldl_sq_Num:
  "foldl (\<lambda>sum e. js_add sum (Math_pow_2 (js_sub e (Num m)))) (Num a) (map Num xs)
     = Num (a + (\<Sum>x\<leftarrow>xs. (x - m)\<^sup>2))"
  by (induction xs arbitrary: a) (simp_all add: add.assoc power2_eq_square)

lemma pushEnergy_map: "pushEnergy (map f hs) (f e) = map f (pushEnergy hs e)"
  by (simp add: pushEnergy_def Let_def map_tl)

lemma pushEnergy_nonempty: "pushEnergy hs e \<noteq> []"
  by (cases hs) (simp_all add: pushEnergy_def Let_def maxEnergyHistorySize_def)

lemma averageEnergy_Num:
  "xs \<noteq> [] \<Longrightarrow> averageEnergy exactArith (map Num xs) = Num (mean xs)"
  by (simp add: averageEnergy_def exactArith_def mean_def foldl_js_add_Num)

lemma varianceEnergy_Num:
  "xs \<noteq> [] \<Longrightarrow> varianceEnergy exactArith (map Num xs) = Num (variance xs)"
proof -
  assume ne: "xs \<noteq> []"
  have "varianceEnergy exactArith (map Num xs) =
          js_div (foldl (\<lambda>sum e. js_add sum (Math_pow_2 (js_sub e (Num (mean xs))))) (Num 0)
                    (map Num xs))
                 (Num (real (length (map Num xs))))"
    unfolding varianceEnergy_def averageEnergy_Num [OF ne] by (simp add: exactArith_def)
  then show ?thesis
    using ne by (simp add: variance_def foldl_sq_Num)
qed

lemma variance_nonneg: "0 \<le> variance xs"
  unfolding variance_def by (intro divide_nonneg_nonneg sum_list_nonneg) auto

lemma energyExceedsThreshold_exact:
  assumes "hs \<noteq> []"
  shows "energyExceedsThreshold exactArith (map Num hs) (Num x)
           \<longleftrightarrow> mean hs + (35 / 100) * sqrt (variance hs) < x"
proof -
  have v: "\<not> variance hs < 0"
    using variance_nonneg [of hs] by simp
  have "energyExceedsThreshold exactArith (map Num hs) (Num x) =
          js_gt (Num x) (js_add (Num (mean hs)) (js_mul (Num beatThreshold)
             (Math_sqrt (Num (variance hs)))))"
    unfolding energyExceedsThreshold_def averageEnergy_Num [OF assms] varianceEnergy_Num [OF assms]
    by (simp add: exactArith_def)
  then show ?thesis
    using v by (simp add: beatThreshold_def)
qed

lemma detectBeat_result:
  "detectBeat ar st e now =
     (if energyExceedsThreshold ar (pushEnergy (energyHistory st) e) e
         \<and> beatMinInterval < now - lastBeatTime st
      then (True, st\<lparr>energyHistory := pushEnergy (energyHistory st) e, lastBeatTime := now\<rparr>)
      else (False, st\<lparr>energyHistory := pushEnergy (energyHistory st) e\<rparr>))"
  by (simp add: detectBeat_def Let_def)

lemma detectBeat_needs_interval:
  "\<not> beatMinInterval < now - lastBeatTime st \<Longrightarrow> fst (detectBeat ar st e now) = False"
  by (simp add: detectBeat_result)

lemma detectBeat_Num:
  assumes "energyHistory st = map Num hs"
  shows "detectBeat exactArith st (Num e) now =
     (let h = pushEnergy hs e; st1 = st\<lparr>energyHistory := map Num h\<rparr>
      in if mean h + beatThreshold * sqrt (variance h) < e
            \<and> beatMinInterval < now - lastBeatTime st
         then (True, st1\<lparr>lastBeatTime := now\<rparr>) else (False, st1))"
proof -
  have ne: "pushEnergy hs e \<noteq> []"
    by (rule pushEnergy_nonempty)
  have h: "pushEnergy (energyHistory st) (Num e) = map Num (pushEnergy hs e)"
    by (simp add: assms pushEnergy_map)
  show ?thesis
    unfolding detectBeat_result h energyExceedsThreshold_exact [OF ne]
    by (simp add: Let_def beatThreshold_def)
qed

lemma pushEnergy_last_43:
  assumes "length h \<le> maxEnergyHistorySize"
  shows "pushEnergy h e = drop (length h + 1 - 43) (h @ [e])"
    and "length (pushEnergy h e) \<le> 43"
proof -
  have c: "length h < 43 \<or> length h = 43"
    using assms by (auto simp: maxEnergyHistorySize_def)
  show "pushEnergy h e = drop (length h + 1 - 43) (h @ [e])"
  proof (cases "length h = 43")
    case True
    then have "h \<noteq> []"
      by auto
    then have "drop (length h + 1 - 43) (h @ [e]) = tl (h @ [e])"
      using True by (simp add: drop_Suc)
    then show ?thesis
      using True by (simp add: pushEnergy_def Let_def maxEnergyHistorySize_def)
  next
    case False
    then show ?thesis
      using c by (simp add: pushEnergy_def Let_def maxEnergyHistorySize_def)
  qed
  show "length (pushEnergy h e) \<le> 43"
    using c by (auto simp: pushEnergy_def Let_def maxEnergyHistorySize_def)
qed

subsection \<open>Beat detection\<close>

text \<open>
  C1, as stated, at the boundary: with the history \<open>[0]\<close> and the last beat at 1000 ms,
  the energy 1 at 1200 ms exceeds the mean of the history plus 0.35 times the square root
  of its variance, and 200 ms have elapsed since the last firing, yet no beat fires: the
  code requires the elapsed time to be strictly greater than \<open>beatMinInterval\<close>. (No
  rounding is involved: by \<open>detectBeat_needs_interval\<close> no arithmetic lets a beat fire
  at 200 ms.)
\<close>

theorem detectBeat_at_200ms_counterexample:
  "mean [0, 1] + (35 / 100) * sqrt (variance [0, 1]) < 1
   \<and> (200 :: int) \<le> 1200 - 1000
   \<and> fst (detectBeat exactArith
            (AudioAnalyzer_new\<lparr>energyHistory := [Num 0], lastBeatTime := 1000\<rparr>)
            (Num 1) 1200) = False"
  using detectBeat_Num [of "AudioAnalyzer_new\<lparr>energyHistory := [Num 0], lastBeatTime := 1000\<rparr>"
                          "[0]" 1 1200]
  by (simp add: pushEnergy_def maxEnergyHistorySize_def mean_def variance_def
      power2_eq_square real_sqrt_divide beatMinInterval_def Let_def)

text \<open>
  C1 (amended): for every beat-detection step with current energy \<open>e\<close>, on a history of at
  most 43 entries (every reachable state has one, \<open>reachable_history_bound\<close>), and whatever
  the rounding of the platform's arithmetic: the history becomes the last 43 entries of
  the old history with \<open>e\<close> appended; a beat fires exactly when the code's test
  \<open>e > averageEnergy + 0.35 * sqrt(variance)\<close> on that history, evaluated in the platform's
  arithmetic from the running sums, holds and more than 200 ms of wall-clock time have
  elapsed since the last firing; the last-firing timestamp becomes the current time when
  the beat fires and is kept otherwise. In arithmetic without rounding, on finite
  energies, the test is that \<open>e\<close> exceeds the mean of the history plus 0.35 times the
  square root of its variance.
\<close>

theorem detectBeat_fires_iff:
  assumes "length (energyHistory st) \<le> maxEnergyHistorySize"
  shows "(fst (detectBeat ar st e now) \<longleftrightarrow>
            energyExceedsThreshold ar (pushEnergy (energyHistory st) e) e
            \<and> 200 < now - lastBeatTime st)
         \<and> energyHistory (snd (detectBeat ar st e now)) = pushEnergy (energyHistory st) e
         \<and> pushEnergy (energyHistory st) e
             = drop (length (energyHistory st) + 1 - 43) (energyHistory st @ [e])
         \<and> length (pushEnergy (energyHistory st) e) \<le> 43
         \<and> lastBeatTime (snd (detectBeat ar st e now)) =
             (if fst (detectBeat ar st e now) then now else lastBeatTime st)
         \<and> (hs \<noteq> [] \<longrightarrow>
              (energyExceedsThreshold exactArith (map Num hs) (Num x)
                 \<longleftrightarrow> mean hs + (35 / 100) * sqrt (variance hs) < x))"
  using pushEnergy_last_43 [OF assms, of e] energyExceedsThreshold_exact [of hs x]
  by (simp add: detectBeat_result beatMinInterval_def)

theorem detectBeat_fires_iff_witness:
  "length (energyHistory (AudioAnalyzer_new\<lparr>energyHistory := [Num 0], lastBeatTime := 1000\<rparr>))
     \<le> maxEnergyHistorySize
   \<and> pushEnergy (energyHistory (AudioAnalyzer_new\<lparr>energyHistory := [Num 0], lastBeatTime := 1000\<rparr>))
        (Num 1) = map Num [0, 1]
   \<and> [0, 1 :: real] \<noteq> []
   \<and> mean [0, 1] + (35 / 100) * sqrt (variance [0, 1]) < 1
   \<and> fst (detectBeat exactArith
            (AudioAnalyzer_new\<lparr>energyHistory := [Num 0], lastBeatTime := 1000\<rparr>) (Num 1) 1201)
   \<and> lastBeatTime
        (snd (detectBeat exactArith
               (AudioAnalyzer_new\<lparr>energyHistory := [Num 0], lastBeatTime := 1000\<rparr>) (Num 1) 1201))
       = 1201"
proof -
  let ?st = "AudioAnalyzer_new\<lparr>energyHistory := [Num 0], lastBeatTime := 1000\<rparr>"
  have l: "length (energyHistory ?st) \<le> maxEnergyHistorySize"
    by (simp add: maxEnergyHistorySize_def)
  have p: "pushEnergy (energyHistory ?st) (Num 1) = map Num [0, 1]"
    by (simp add: pushEnergy_def maxEnergyHistorySize_def)
  have m: "mean [0, 1] + (35 / 100) * sqrt (variance [0, 1]) < 1"
    by (simp add: mean_def variance_def power2_eq_square real_sqrt_divide)
  note t = detectBeat_fires_iff [OF l, of exactArith "Num 1" 1201 "[0, 1]" 1, unfolded p]
  have e: "energyExceedsThreshold exactArith (map Num [0, 1]) (Num 1)"
    using t m by blast
  have f: "fst (detectBeat exactArith ?st (Num 1) 1201)"
    using t e by simp
  have "lastBeatTime (snd (detectBeat exactArith ?st (Num 1) 1201)) = 1201"
    using t f by simp
  then show ?thesis
    using l p m f by simp
qed

subsection \<open>Before initialisation\<close>

lemma before_init_inv:
  "before_init st \<Longrightarrow> currentAnalysis st = defaultAnalysis \<and> frequencyData st = None"
proof (induction rule: before_init.induct)
  case pre_new
  then show ?case by (simp add: AudioAnalyzer_new_def)
next
  case (pre_initialize st env)
  then show ?case
    by (auto simp: initialize_def Let_def split: option.splits if_splits)
next
  case (pre_analyze st inp)
  then show ?case by (auto simp: analyze_def split: option.splits)
next
  case (pre_series st barCount)
  then show ?case
    by (auto simp: getVisualizationData_def getSmoothedFrequencyData_def split: option.splits)
next
  case (pre_dispose st)
  then show ?case by (simp add: dispose_def)
qed

lemma analyze_absent: "analyser st = None \<Longrightarrow> analyze st inp = (Inr (currentAnalysis st), st)"
  by (simp add: analyze_def)

subsection \<open>Frequency bands\<close>

lemma floor_tenth: "\<lfloor>real n / 10\<rfloor> = int (n div 10)"
  using floor_divide_of_nat_eq [of n 10, where ?'a = real] by simp
lemma floor_quarter: "\<lfloor>real n / 4\<rfloor> = int (n div 4)"
  using floor_divide_of_nat_eq [of n 4, where ?'a = real] by simp
lemma floor_half: "\<lfloor>real n / 2\<rfloor> = int (n div 2)"
  using floor_divide_of_nat_eq [of n 2, where ?'a = real] by simp
lemma floor_three_quarters: "\<lfloor>3 * real n / 4\<rfloor> = int (3 * n div 4)"
  using floor_divide_of_nat_eq [of "3 * n" 4, where ?'a = real] by simp

lemma bandRanges_eq:
  "bandRanges n = [(0, int (n div 10)), (int (n div 10), int (n div 4)), (int (n div 4), int (n div 2)),
      (int (n div 2), int (3 * n div 4)), (int (3 * n div 4), int n)]"
  by (simp add: bandRanges_def frequencyBands_def bandBins_def floor_tenth floor_quarter floor_half floor_three_quarters)

lemma band_sum:
  assumes "a \<le> b" "b \<le> length fd"
  shows "foldl (\<lambda>sum i. js_add sum (byte_at fd i)) (Num acc) [int a..int b - 1]
         = Num (acc + sum_list (map (\<lambda>b. magnitude b) (take (b - a) (drop a fd))))"
  using assms
proof (induction b rule: dec_induct)
  case base
  then show ?case by simp
next
  case (step n)
  have "[int a..int (Suc n) - 1] = [int a..int n - 1] @ [int n]"
    using step.hyps(1) upto_rec2 [of "int a" "int n"] by simp
  moreover have "take (Suc n - a) (drop a fd) = take (n - a) (drop a fd) @ [fd ! n]"
    using step.hyps step.prems
    by (simp add: Suc_diff_le take_Suc_conv_app_nth)
  ultimately show ?case
    using step by (simp add: byte_at_def)
qed

lemma bandValue_eq:
  assumes "a \<le> b" "b \<le> length fd"
  shows "bandValue fd (int a, int b) = meanMagnitude255 (binsOf fd (int a, int b))"
proof -
  have d: "nat (int b - int a) = b - a" "nat (int a) = a"
    using assms by simp_all
  have s: "foldl (\<lambda>sum i. js_add sum (byte_at fd i)) (Num 0) [int a..int b - 1]
           = Num (sum_list (map (\<lambda>b. magnitude b) (take (b - a) (drop a fd))))"
    using band_sum [OF assms, of 0] by simp
  have n: "(of_int (int b - int a) :: real) = real (length (take (b - a) (drop a fd)))"
    using assms by simp
  show ?thesis
    by (simp only: bandValue_def meanMagnitude255_def binsOf_def Let_def fst_conv snd_conv d s n)
qed

lemma slices_append:
  assumes "a \<le> b" "b \<le> c"
  shows "take (b - a) (drop a xs) @ take (c - b) (drop b xs) = take (c - a) (drop a xs)"
proof -
  have "take (c - a) (drop a xs) = take ((b - a) + (c - b)) (drop a xs)"
    using assms by simp
  also have "\<dots> = take (b - a) (drop a xs) @ take (c - b) (drop (b - a) (drop a xs))"
    by (simp only: take_add)
  finally show ?thesis using assms by simp
qed

lemma bands_cover:
  "concat (map (binsOf fd) (bandRanges (length fd))) = fd"
proof -
  let ?n = "length fd"
  have o: "?n div 10 \<le> ?n div 4" "?n div 4 \<le> ?n div 2" "?n div 2 \<le> 3 * ?n div 4" "3 * ?n div 4 \<le> ?n"
    by simp_all
  have c1: "take (?n div 10) fd @ take (?n div 4 - ?n div 10) (drop (?n div 10) fd) = take (?n div 4) fd"
    using slices_append [of 0 "?n div 10" "?n div 4" fd] o by simp
  have c2: "take (?n div 4) fd @ take (?n div 2 - ?n div 4) (drop (?n div 4) fd) = take (?n div 2) fd"
    using slices_append [of 0 "?n div 4" "?n div 2" fd] o by simp
  have c3: "take (?n div 2) fd @ take (3 * ?n div 4 - ?n div 2) (drop (?n div 2) fd) = take (3 * ?n div 4) fd"
    using slices_append [of 0 "?n div 2" "3 * ?n div 4" fd] o by simp
  have "concat (map (binsOf fd) (bandRanges ?n)) =
        (((take (?n div 10) fd @ take (?n div 4 - ?n div 10) (drop (?n div 10) fd))
          @ take (?n div 2 - ?n div 4) (drop (?n div 4) fd))
          @ take (3 * ?n div 4 - ?n div 2) (drop (?n div 2) fd))
          @ drop (3 * ?n div 4) fd"
    using o by (simp add: bandRanges_eq binsOf_def nat_diff_distrib' flip: of_nat_diff)
  also have "\<dots> = fd"
    by (simp only: c1 c2 c3 append_take_drop_id)
  finally show ?thesis .
qed

lemma meanMagnitude255_nonempty:
  "bins \<noteq> [] \<Longrightarrow> meanMagnitude255 bins = Num (mean (map (\<lambda>b. magnitude b) bins) / 255)"
  by (simp add: meanMagnitude255_def mean_def)

lemma binsOf_nat: "binsOf fd (int a, int b) = take (b - a) (drop a fd)"
proof -
  have "nat (int b - int a) = b - a"
    by arith
  then show ?thesis
    by (simp add: binsOf_def)
qed

lemma binsOf_nonempty: "a < b \<Longrightarrow> a < length fd \<Longrightarrow> binsOf fd (int a, int b) \<noteq> []"
  by (simp add: binsOf_nat)

lemma bands_nonempty:
  assumes "10 \<le> length fd"
  shows "list_all (\<lambda>r. binsOf fd r \<noteq> []) (bandRanges (length fd))"
proof -
  let ?n = "length fd"
  have lt: "0 < ?n div 10" "?n div 10 < ?n div 4" "?n div 4 < ?n div 2"
           "?n div 2 < 3 * ?n div 4" "3 * ?n div 4 < ?n"
    using assms by linarith+
  have b1: "binsOf fd (int 0, int (?n div 10)) \<noteq> []"
    using lt by (intro binsOf_nonempty) linarith+
  have b2: "binsOf fd (int (?n div 10), int (?n div 4)) \<noteq> []"
    using lt by (intro binsOf_nonempty) linarith+
  have b3: "binsOf fd (int (?n div 4), int (?n div 2)) \<noteq> []"
    using lt by (intro binsOf_nonempty) linarith+
  have b4: "binsOf fd (int (?n div 2), int (3 * ?n div 4)) \<noteq> []"
    using lt by (intro binsOf_nonempty) linarith+
  have b5: "binsOf fd (int (3 * ?n div 4), int ?n) \<noteq> []"
    using lt by (intro binsOf_nonempty) linarith+
  show ?thesis
    using b1 b2 b3 b4 b5 by (simp only: bandRanges_eq list.pred_inject of_nat_0) simp
qed

text \<open>
  C4: for a spectrum of any bin count the five band ranges are
  \<open>[0, n div 10)\<close>, \<open>[n div 10, n div 4)\<close>, \<open>[n div 4, n div 2)\<close>,
  \<open>[n div 2, 3n div 4)\<close> and \<open>[3n div 4, n)\<close>: each starts where the one before ends,
  and the bins of the five ranges, taken in order, are the spectrum itself, so every bin
  is in exactly one band. Each band value is the mean magnitude of the bins of its range
  divided by 255, computed as JavaScript does (the sum over the count, which is
  \<open>0 / 0\<close>, NaN, for a range without bins); from 10 bins on no range is empty and
  every value is the real mean divided by 255.
\<close>

theorem bands_partition_and_mean:
  "bandRanges (length fd) =
     [(0, int (length fd div 10)), (int (length fd div 10), int (length fd div 4)),
      (int (length fd div 4), int (length fd div 2)),
      (int (length fd div 2), int (3 * length fd div 4)),
      (int (3 * length fd div 4), int (length fd))]
   \<and> concat (map (binsOf fd) (bandRanges (length fd))) = fd
   \<and> map fst (analyzeFrequencyBands fd) = [''bass'', ''lowMid'', ''mid'', ''highMid'', ''treble'']
   \<and> map snd (analyzeFrequencyBands fd) =
       map (\<lambda>r. meanMagnitude255 (binsOf fd r)) (bandRanges (length fd))
   \<and> (10 \<le> length fd \<longrightarrow>
        list_all (\<lambda>r. binsOf fd r \<noteq> []
                   \<and> meanMagnitude255 (binsOf fd r)
                     = Num (mean (map (\<lambda>b. magnitude b) (binsOf fd r)) / 255))
                 (bandRanges (length fd)))"
proof -
  let ?n = "length fd"
  have o: "?n div 10 \<le> ?n div 4" "?n div 4 \<le> ?n div 2" "?n div 2 \<le> 3 * ?n div 4" "3 * ?n div 4 \<le> ?n"
    by simp_all
  have v: "map snd (analyzeFrequencyBands fd) = map (bandValue fd) (bandRanges ?n)"
    by (simp add: analyzeFrequencyBands_def bandRanges_def frequencyBands_def)
  have "map (bandValue fd) (bandRanges ?n) = map (\<lambda>r. meanMagnitude255 (binsOf fd r)) (bandRanges ?n)"
    unfolding bandRanges_eq using o bandValue_eq [of 0 "?n div 10" fd]
    by (simp add: bandValue_eq)
  moreover have "10 \<le> ?n \<Longrightarrow> list_all (\<lambda>r. binsOf fd r \<noteq> []
                   \<and> meanMagnitude255 (binsOf fd r)
                     = Num (mean (map (\<lambda>b. magnitude b) (binsOf fd r)) / 255))
                 (bandRanges ?n)"
    using bands_nonempty [of fd] by (simp add: list_all_iff meanMagnitude255_nonempty)
  ultimately show ?thesis
    using v bands_cover [of fd] bandRanges_eq [of ?n]
    by (simp add: analyzeFrequencyBands_def frequencyBands_def)
qed

theorem bands_partition_and_mean_witness:
  "(10 :: nat) \<le> length [255, 0, 0, 0, 0, 0, 0, 0, 0, 0 :: 8 word]
   \<and> bandRanges 10 = [(0, 1), (1, 2), (2, 5), (5, 7), (7, 10)]
   \<and> concat (map (binsOf [255, 0, 0, 0, 0, 0, 0, 0, 0, 0 :: 8 word]) (bandRanges 10))
       = [255, 0, 0, 0, 0, 0, 0, 0, 0, 0]
   \<and> map snd (analyzeFrequencyBands [255, 0, 0, 0, 0, 0, 0, 0, 0, 0])
       = [Num 1, Num 0, Num 0, Num 0, Num 0]"
proof -
  let ?fd = "[255, 0, 0, 0, 0, 0, 0, 0, 0, 0 :: 8 word]"
  have len: "length ?fd = 10"
    by simp
  note t = bands_partition_and_mean [of ?fd, unfolded len]
  have r: "bandRanges 10 = [(0, 1), (1, 2), (2, 5), (5, 7), (7, 10)]"
    using t [THEN conjunct1] by simp
  have c: "concat (map (binsOf ?fd) (bandRanges 10)) = ?fd"
    using t [THEN conjunct2, THEN conjunct1] .
  have "map snd (analyzeFrequencyBands ?fd) = map (\<lambda>r. meanMagnitude255 (binsOf ?fd r)) (bandRanges 10)"
    using t [THEN conjunct2, THEN conjunct2, THEN conjunct2, THEN conjunct1] .
  then have m: "map snd (analyzeFrequencyBands ?fd) = [Num 1, Num 0, Num 0, Num 0, Num 0]"
    unfolding r by (simp add: binsOf_def meanMagnitude255_def magnitude_def)
  show ?thesis
    using len r c m by simp
qed

subsection \<open>Analysis before initialisation\<close>

text \<open>
  C10: while no call of \<open>initialize\<close> has succeeded and the analyser node is absent,
  \<open>analyze\<close> returns the default snapshot (volume 0, energy 0, no beat, dominant
  frequency 0, no bands, empty spectrum and waveform) without throwing and leaves the
  state of the extractor as it was.
\<close>

theorem analyze_before_initialize:
  assumes "before_init st" and "analyser st = None"
  shows "analyze st inp =
           (Inr \<lparr> volume = Num 0, energy = Num 0, beat = False, dominantFrequency = Num 0,
                  bands = [], spectrum = [], waveform = [] \<rparr>, st)"
  using before_init_inv [OF assms(1)] analyze_absent [OF assms(2), of inp]
  by (simp add: defaultAnalysis_def)

theorem analyze_before_initialize_witness:
  "before_init (snd (initialize AudioAnalyzer_new
                     \<lparr> env_context = None, env_resume_ok = True, env_source_ok = True \<rparr>))
   \<and> analyser (snd (initialize AudioAnalyzer_new
                     \<lparr> env_context = None, env_resume_ok = True, env_source_ok = True \<rparr>)) = None
   \<and> fst (analyze (snd (initialize AudioAnalyzer_new
                     \<lparr> env_context = None, env_resume_ok = True, env_source_ok = True \<rparr>))
                   \<lparr> in_spectrum = (\<lambda>i. 7), in_waveform = (\<lambda>i. 128), in_now = 1000 \<rparr>)
       = Inr defaultAnalysis"
proof -
  let ?env = "\<lparr> env_context = None, env_resume_ok = True, env_source_ok = True \<rparr>"
  have f: "fst (initialize AudioAnalyzer_new ?env) = False"
    by (simp add: initialize_def)
  have b: "before_init (snd (initialize AudioAnalyzer_new ?env))"
    by (rule pre_initialize [OF pre_new f])
  have a: "analyser (snd (initialize AudioAnalyzer_new ?env)) = None"
    by (simp add: initialize_def AudioAnalyzer_new_def)
  show ?thesis
    using analyze_before_initialize [OF b a] b a by (simp add: defaultAnalysis_def)
qed

subsection \<open>The invariant of the extractor\<close>

lemma finiteIn_Num [simp]: "finiteIn lo hi (Num x) \<longleftrightarrow> lo \<le> x \<and> x \<le> hi"
  by (simp add: finiteIn_def)

lemma finiteIn_cases: "finiteIn lo hi v \<Longrightarrow> \<exists>x. v = Num x \<and> lo \<le> x \<and> x \<le> hi"
  by (cases v) (simp_all add: finiteIn_def)

lemma list_all_finiteIn:
  "list_all (finiteIn lo hi) vs \<Longrightarrow> \<exists>xs. vs = map Num xs \<and> (\<forall>x\<in>set xs. lo \<le> x \<and> x \<le> hi)"
proof (induction vs)
  case Nil
  then show ?case by simp
next
  case (Cons v vs)
  then obtain x xs where "v = Num x" "lo \<le> x" "x \<le> hi" "vs = map Num xs"
      "\<forall>x\<in>set xs. lo \<le> x \<and> x \<le> hi"
    using finiteIn_cases [of lo hi v] by auto
  then have "v # vs = map Num (x # xs) \<and> (\<forall>y\<in>set (x # xs). lo \<le> y \<and> y \<le> hi)"
    by simp
  then show ?case by (rule exI [of _ "x # xs"])
qed

lemma magnitude_nonneg: "0 \<le> magnitude b"
  unfolding magnitude_def by (rule of_nat_0_le_iff)

lemma byte_le_255: "magnitude b \<le> 255"
proof -
  have "unat b < 2 ^ 8"
    using unsigned_less [of b, where ?'a = nat] by simp
  then have "unat b \<le> 255"
    by simp
  then have "real (unat b) \<le> real 255"
    by (simp only: of_nat_le_iff)
  then show ?thesis
    unfolding magnitude_def by simp
qed

lemma sum_list_le_length:
  "(\<And>x. x \<in> set xs \<Longrightarrow> f x \<le> (c::real)) \<Longrightarrow> sum_list (map f xs) \<le> real (length xs) * c"
  by (induction xs) (auto simp: algebra_simps add_mono)

lemma foldl_energy:
  "foldl (\<lambda>sum b. sum + magnitude b * magnitude b) a fd
     = a + (\<Sum>b\<leftarrow>fd. magnitude b * magnitude b)"
  by (induction fd arbitrary: a) (simp_all add: add.assoc)

lemma foldl_volume:
  "foldl (\<lambda>sum b. sum + sample_of b * sample_of b) a td
     = a + (\<Sum>b\<leftarrow>td. sample_of b * sample_of b)"
  by (induction td arbitrary: a) (simp_all add: add.assoc)

lemma calculateEnergy_finite:
  assumes "fd \<noteq> []"
  shows "finiteIn 0 1 (calculateEnergy fd)"
proof -
  let ?s = "\<Sum>b\<leftarrow>fd. magnitude b * magnitude b"
  have n: "0 < real (length fd)"
    using assms by simp
  have "\<And>b. b \<in> set fd \<Longrightarrow> magnitude b * magnitude b \<le> 255 * 255"
    by (intro mult_mono byte_le_255 magnitude_nonneg) simp
  then have up: "?s \<le> real (length fd) * (255 * 255)"
    by (rule sum_list_le_length)
  have lo: "0 \<le> ?s"
    by (intro sum_list_nonneg) (auto simp: magnitude_nonneg)
  have "?s / (real (length fd) * 255 * 255) \<le> 1"
    using up n by (simp add: divide_le_eq)
  moreover have "0 \<le> ?s / (real (length fd) * 255 * 255)"
    using lo n by simp
  ultimately show ?thesis
    using n by (simp add: calculateEnergy_def foldl_energy)
qed

lemma list_all_pushEnergy:
  "list_all P h \<Longrightarrow> P e \<Longrightarrow> list_all P (pushEnergy h e)"
  by (cases h) (simp_all add: pushEnergy_def Let_def)

lemma energyHistory_detectBeat:
  "energyHistory (snd (detectBeat ar st e now)) = pushEnergy (energyHistory st) e"
  by (simp add: detectBeat_def Let_def)

lemma detectBeat_other_fields:
  "frequencyData (snd (detectBeat ar st e now)) = frequencyData st"
  "timeData (snd (detectBeat ar st e now)) = timeData st"
  "analyser (snd (detectBeat ar st e now)) = analyser st"
  "audioContext (snd (detectBeat ar st e now)) = audioContext st"
  "lastFrequencyData (snd (detectBeat ar st e now)) = lastFrequencyData st"
  by (simp_all add: detectBeat_def Let_def)


lemma extractorInv_new: "extractorInv AudioAnalyzer_new"
  by (simp add: extractorInv_def AudioAnalyzer_new_def)

lemma extractorInv_initialize:
  "extractorInv st \<Longrightarrow> extractorInv (snd (initialize st env))"
  by (auto simp: extractorInv_def initialize_def Let_def frequencyBinCount_def
      split: option.splits)

lemma extractorInv_dispose: "extractorInv st \<Longrightarrow> extractorInv (dispose st)"
  by (auto simp: extractorInv_def dispose_def split: option.splits)

lemma fftSize_bins: "0 < fftSize div 2"
  by (simp add: fftSize_def)

lemma extractorInv_analyze:
  assumes "extractorInv st"
  shows "extractorInv (snd (analyze st inp))"
proof (cases "analyser st")
  case None
  then show ?thesis using assms by (simp add: analyze_def)
next
  case (Some node)
  show ?thesis
  proof (cases "frequencyData st")
    case None
    then show ?thesis using assms Some by (simp add: analyze_def)
  next
    case fd: (Some fd0)
    then obtain td0 where td: "timeData st = Some td0"
        and len: "length fd0 = fftSize div 2" "length td0 = fftSize div 2"
      using assms by (auto simp: extractorInv_def split: option.splits)
    obtain ctx where ctx: "audioContext st = Some ctx"
      using assms Some by (auto simp: extractorInv_def)
    let ?fd = "getByteData (in_spectrum inp) fd0"
    have "?fd \<noteq> []"
      using len fftSize_bins by (auto simp: getByteData_def)
    then have e: "finiteIn 0 1 (calculateEnergy ?fd)"
      by (rule calculateEnergy_finite)
    have h: "list_all (finiteIn 0 1) (pushEnergy (energyHistory st) (calculateEnergy ?fd))"
      using assms e by (intro list_all_pushEnergy) (simp_all add: extractorInv_def)
    show ?thesis
      using assms Some fd td ctx len h
      by (simp add: analyze_def Let_def split_beta extractorInv_def detectBeat_other_fields
          energyHistory_detectBeat getByteData_def)
  qed
qed

subsection \<open>Smoothing and reachable states\<close>

lemma lerp_Num:
  "lerp (Num l) (Num r) smoothingFactor = Num ((3 / 10) * l + (7 / 10) * r)"
  by (simp add: lerp_def smoothingFactor_def field_simps)

lemma smoothBins_Num:
  "length prev = length fd \<Longrightarrow>
   smoothBins (map Num prev) fd = map Num (map (\<lambda>(old, raw). blend old raw) (zip prev fd))"
proof (induction prev fd rule: list_induct2)
  case Nil
  then show ?case by simp
next
  case (Cons l ls b bs)
  then show ?case by (simp add: lerp_Num blend_def)
qed

lemma blend_range:
  "0 \<le> old \<Longrightarrow> old \<le> 255 \<Longrightarrow> 0 \<le> blend old raw \<and> blend old raw \<le> 255"
  using magnitude_nonneg [of raw] byte_le_255 [of raw] by (simp add: blend_def)

lemma specSmoothed_range:
  assumes "case persisted of None \<Rightarrow> True
           | Some prev \<Rightarrow> \<forall>x\<in>set prev. 0 \<le> x \<and> x \<le> 255"
  shows "\<forall>x\<in>set (specSmoothed persisted fd). 0 \<le> x \<and> x \<le> 255"
proof (cases persisted)
  case None
  then show ?thesis
    by (auto simp: specSmoothed_def magnitude_nonneg byte_le_255)
next
  case (Some prev)
  then have "\<forall>x\<in>set prev. 0 \<le> x \<and> x \<le> 255"
    using assms by simp
  then show ?thesis
    using Some by (auto simp: specSmoothed_def dest!: set_zip_leftD intro: blend_range [THEN conjunct1] blend_range [THEN conjunct2])
qed

lemma length_specSmoothed:
  "(case persisted of None \<Rightarrow> True | Some prev \<Rightarrow> length prev = length fd)
   \<Longrightarrow> length (specSmoothed persisted fd) = length fd"
  by (cases persisted) (simp_all add: specSmoothed_def)

lemma list_all_finiteIn_map: "list_all (finiteIn lo hi) (map Num xs) \<longleftrightarrow> (\<forall>x\<in>set xs. lo \<le> x \<and> x \<le> hi)"
  by (simp add: list_all_iff)

lemma finiteVals_map [simp]: "finiteVals (map Num xs) = xs"
  by (simp add: finiteVals_def comp_def)

text \<open>The smoothing step on a state that satisfies the invariant.\<close>

lemma getSmoothedFrequencyData_inv:
  assumes "extractorInv st" and "frequencyData st = Some fd"
  shows "getSmoothedFrequencyData st =
           (Inr (map Num (specSmoothed (map_option finiteVals (lastFrequencyData st)) fd)),
            st\<lparr>lastFrequencyData :=
                 Some (map Num (specSmoothed (map_option finiteVals (lastFrequencyData st)) fd))\<rparr>)"
proof (cases "lastFrequencyData st")
  case None
  then show ?thesis
    using assms by (simp add: getSmoothedFrequencyData_def specSmoothed_def Let_def comp_def)
next
  case (Some ls)
  then have "length ls = fftSize div 2" "list_all (finiteIn 0 255) ls"
    using assms by (simp_all add: extractorInv_def)
  moreover have "length fd = fftSize div 2"
    using assms by (simp add: extractorInv_def split: option.splits)
  ultimately obtain prev where p: "ls = map Num prev" "length prev = length fd"
    using list_all_finiteIn [of 0 255 ls] by auto
  show ?thesis
    using assms Some p
    by (simp add: getSmoothedFrequencyData_def specSmoothed_def smoothBins_Num Let_def)
qed

lemma smoothed_range:
  assumes "extractorInv st" and "frequencyData st = Some fd"
  shows "length (specSmoothed (map_option finiteVals (lastFrequencyData st)) fd) = fftSize div 2"
    and "\<forall>x\<in>set (specSmoothed (map_option finiteVals (lastFrequencyData st)) fd). 0 \<le> x \<and> x \<le> 255"
proof -
  have l: "length fd = fftSize div 2"
    using assms by (simp add: extractorInv_def split: option.splits)
  show "length (specSmoothed (map_option finiteVals (lastFrequencyData st)) fd) = fftSize div 2"
  proof (cases "lastFrequencyData st")
    case None
    then show ?thesis using l by (simp add: specSmoothed_def)
  next
    case (Some ls)
    then have "length ls = fftSize div 2"
      using assms by (simp add: extractorInv_def)
    then show ?thesis using l Some by (simp add: specSmoothed_def finiteVals_def)
  qed
  show "\<forall>x\<in>set (specSmoothed (map_option finiteVals (lastFrequencyData st)) fd). 0 \<le> x \<and> x \<le> 255"
  proof (rule specSmoothed_range, cases "lastFrequencyData st")
    case None
    then show "case map_option finiteVals (lastFrequencyData st) of None \<Rightarrow> True
           | Some prev \<Rightarrow> \<forall>x\<in>set prev. 0 \<le> x \<and> x \<le> 255"
      by simp
  next
    case (Some ls)
    then have "list_all (finiteIn 0 255) ls"
      using assms by (simp add: extractorInv_def)
    then obtain prev where "ls = map Num prev" "\<forall>x\<in>set prev. 0 \<le> x \<and> x \<le> 255"
      using list_all_finiteIn [of 0 255 ls] by auto
    then show "case map_option finiteVals (lastFrequencyData st) of None \<Rightarrow> True
           | Some prev \<Rightarrow> \<forall>x\<in>set prev. 0 \<le> x \<and> x \<le> 255"
      using Some by simp
  qed
qed

lemma extractorInv_series:
  assumes "extractorInv st"
  shows "extractorInv (snd (getVisualizationData st barCount))"
proof (cases "frequencyData st")
  case None
  then show ?thesis
    using assms by (simp add: getVisualizationData_def getSmoothedFrequencyData_def)
next
  case (Some fd)
  show ?thesis
    using assms Some smoothed_range [OF assms Some]
    by (auto simp: getVisualizationData_def getSmoothedFrequencyData_inv [OF assms Some]
        extractorInv_def list_all_finiteIn_map Let_def split: option.splits)
qed

lemma reachable_inv: "reachable st \<Longrightarrow> extractorInv st"
  by (induction rule: reachable.induct)
     (simp_all add: extractorInv_new extractorInv_initialize extractorInv_analyze
        extractorInv_series extractorInv_dispose)

lemma analyze_history:
  "energyHistory (snd (analyze st inp)) = energyHistory st
   \<or> (\<exists>e. energyHistory (snd (analyze st inp)) = pushEnergy (energyHistory st) e)"
  by (auto simp: analyze_def Let_def split_beta energyHistory_detectBeat split: option.splits)

lemma reachable_history_bound: "reachable st \<Longrightarrow> length (energyHistory st) \<le> 43"
proof (induction rule: reachable.induct)
  case reach_new
  show ?case by (simp add: AudioAnalyzer_new_def)
next
  case (reach_initialize st env)
  then show ?case
    by (auto simp: initialize_def Let_def split: option.splits)
next
  case (reach_analyze st inp)
  then have "length (energyHistory st) \<le> maxEnergyHistorySize"
    by (simp add: maxEnergyHistorySize_def)
  then show ?case
    using analyze_history [of st inp] reach_analyze.IH pushEnergy_last_43(2) by auto
next
  case (reach_series st barCount)
  then show ?case
    by (auto simp: getVisualizationData_def getSmoothedFrequencyData_def Let_def
        split: option.splits)
next
  case (reach_dispose st)
  show ?case by (simp add: dispose_def)
qed

subsection \<open>The visualisation series\<close>

lemma series_sum:
  "m + k \<le> length sm \<Longrightarrow>
   foldl (\<lambda>sum j. js_add sum (num_at (map Num sm) j)) (Num a) [m..<m + k]
     = Num (a + sum_list (take k (drop m sm)))"
proof (induction k)
  case 0
  then show ?case by simp
next
  case (Suc k)
  then have "take (Suc k) (drop m sm) = take k (drop m sm) @ [sm ! (m + k)]"
    by (simp add: take_Suc_conv_app_nth)
  then show ?case
    using Suc by (simp add: num_at_def)
qed

lemma group_mean_range:
  assumes "\<forall>x\<in>set sm. 0 \<le> x \<and> x \<le> 255" and "0 < k" and "m + k \<le> length sm"
  shows "0 \<le> mean (take k (drop m sm))" and "mean (take k (drop m sm)) \<le> 255"
proof -
  let ?g = "take k (drop m sm)"
  have len: "length ?g = k"
    using assms by simp
  have el: "\<And>x. x \<in> set ?g \<Longrightarrow> 0 \<le> x \<and> x \<le> 255"
    using assms(1) by (meson in_set_dropD in_set_takeD)
  have "sum_list (map (\<lambda>x. x) ?g) \<le> real (length ?g) * 255"
    by (rule sum_list_le_length) (simp add: el)
  then have up: "sum_list ?g \<le> real k * 255"
    by (simp only: len list.map_ident)
  have lo: "0 \<le> sum_list ?g"
    by (rule sum_list_nonneg) (simp add: el)
  show "0 \<le> mean ?g"
    using lo by (simp only: mean_def len) simp
  show "mean ?g \<le> 255"
    using up assms(2) by (simp only: mean_def len) (simp add: divide_le_eq)
qed

lemma barValue_Num:
  assumes "\<forall>x\<in>set sm. 0 \<le> x \<and> x \<le> 255" and "0 < k" and "i * k + k \<le> length sm"
  shows "barValue (map Num sm) k i = Num ((mean (take k (drop (i * k) sm)) / 255) powr (7 / 10))"
proof -
  let ?g = "take k (drop (i * k) sm)"
  have len: "length ?g = k"
    using assms by simp
  have s: "foldl (\<lambda>sum j. js_add sum (num_at (map Num sm) j)) (Num 0) [i * k..<i * k + k]
           = Num (sum_list ?g)"
    using series_sum [OF assms(3), of 0] by simp
  have m: "sum_list ?g / real k = mean ?g"
    by (simp only: mean_def len)
  have "0 \<le> mean ?g"
    using group_mean_range(1) [OF assms] .
  then have "\<not> mean ?g / 255 < 0"
    by simp
  then show ?thesis
    using assms(2) by (simp add: barValue_def Let_def s m)
qed

lemma group_index:
  assumes "1 \<le> n" and "n \<le> len" and "i < n"
  shows "0 < len div n" and "i * (len div n) + len div n \<le> (len::nat)"
proof -
  show "0 < len div n"
    using assms by (simp add: div_greater_zero_iff)
  have "i * (len div n) + len div n = Suc i * (len div n)"
    by simp
  also have "\<dots> \<le> n * (len div n)"
    using assms(3) by (intro mult_le_mono1) simp
  also have "\<dots> \<le> len"
    by simp
  finally show "i * (len div n) + len div n \<le> len" .
qed

lemma specSeries_range:
  assumes "\<forall>x\<in>set sm. 0 \<le> x \<and> x \<le> 255" and "1 \<le> n" and "n \<le> length sm"
  shows "\<forall>x\<in>set (specSeries sm n). 0 \<le> x \<and> x \<le> 1"
proof
  fix x
  assume "x \<in> set (specSeries sm n)"
  then obtain i where i: "i < n"
      and x: "x = (mean (take (length sm div n) (drop (i * (length sm div n)) sm)) / 255) powr (7 / 10)"
    by (auto simp: specSeries_def Let_def)
  let ?m = "mean (take (length sm div n) (drop (i * (length sm div n)) sm))"
  note g = group_index [OF assms(2) assms(3) i]
  have "0 \<le> ?m" "?m \<le> 255"
    using group_mean_range [OF assms(1) g] by simp_all
  then have "0 \<le> ?m / 255" "?m / 255 \<le> 1"
    by simp_all
  then have "(?m / 255) powr (7 / 10) \<le> 1"
    by (intro powr_le1) simp_all
  then show "0 \<le> x \<and> x \<le> 1"
    unfolding x by simp
qed

lemma series_Num:
  assumes "\<forall>x\<in>set sm. 0 \<le> x \<and> x \<le> 255" and "1 \<le> n" and "n \<le> length sm"
  shows "map (barValue (map Num sm) (length sm div n)) [0..<n] = map Num (specSeries sm n)"
  using assms
  by (simp add: specSeries_def Let_def barValue_Num group_index)

lemma barValue_zero: "barValue sm 0 i = NaN"
  by (simp add: barValue_def Let_def)

lemma initialize_ok:
  "initialize AudioAnalyzer_new
     \<lparr> env_context = Some \<lparr> sampleRate = 44100, suspended = False \<rparr>,
       env_resume_ok = True, env_source_ok = True \<rparr>
   = (True, AudioAnalyzer_new
       \<lparr> audioContext := Some \<lparr> sampleRate = 44100, suspended = False \<rparr>,
         analyser := Some \<lparr> node_fftSize = 2048, node_smoothingTimeConstant = 8 / 10 \<rparr>,
         source := True,
         frequencyData := Some (replicate 1024 0),
         timeData := Some (replicate 1024 0) \<rparr>)"
  by (simp add: initialize_def Let_def frequencyBinCount_def fftSize_def
      smoothingTimeConstant_def AudioAnalyzer_new_def)

text \<open>
  C3, as stated, beyond the bin count: on the freshly initialised extractor (1024 bins)
  the series of length 1025 has \<open>binSize = 0\<close>, every group is empty, and each of its
  1025 entries is \<open>0 / 0\<close>, NaN, which is not a number of \<open>[0, 1]\<close>.
\<close>

theorem series_beyond_bin_count_counterexample:
  "fst (getVisualizationData
         (snd (initialize AudioAnalyzer_new
                \<lparr> env_context = Some \<lparr> sampleRate = 44100, suspended = False \<rparr>,
                  env_resume_ok = True, env_source_ok = True \<rparr>))
         1025)
   = Inr (replicate 1025 NaN)"
proof -
  have z: "barValue (map (\<lambda>b. Num (magnitude b)) (replicate 1024 0)) 0 = (\<lambda>i. NaN)"
    by (rule ext) (rule barValue_zero)
  have "map (barValue (map (\<lambda>b. Num (magnitude b)) (replicate 1024 0)) 0) [0..<1025]
        = map (\<lambda>i. NaN) [0..<1025]"
    by (simp only: z)
  also have "\<dots> = replicate 1025 NaN"
    by (simp only: map_replicate_const length_upt) simp
  finally show ?thesis
    unfolding initialize_ok
    by (simp add: getVisualizationData_def getSmoothedFrequencyData_def
        AudioAnalyzer_new_def Let_def)
qed

text \<open>
  C3 (amended): on an initialised extractor in a reachable state and for every requested
  length \<open>n\<close> with \<open>1 \<le> n\<close> and \<open>n\<close> at most the bin count, \<open>getVisualizationData\<close>
  blends each persisted smoothed bin 70% toward the new raw value, 30% retained (on the
  first call the smoothed bins are the raw values), stores the smoothed bins, averages
  them in \<open>n\<close> contiguous groups of \<open>binCount div n\<close> bins, divides each group mean by
  255 and raises it to the power 0.7; the result has exactly \<open>n\<close> entries, each a
  finite number of \<open>[0, 1]\<close>.
\<close>

theorem series_in_unit_interval:
  assumes "reachable st" and "frequencyData st = Some fd" and "1 \<le> n" and "n \<le> length fd"
  shows "(\<forall>ls. lastFrequencyData st = Some ls \<longrightarrow> ls = map Num (finiteVals ls))
    \<and> (let sm = specSmoothed (map_option finiteVals (lastFrequencyData st)) fd
       in getVisualizationData st n
            = (Inr (map Num (specSeries sm n)), st\<lparr>lastFrequencyData := Some (map Num sm)\<rparr>)
          \<and> length sm = length fd
          \<and> length (specSeries sm n) = n
          \<and> (\<forall>x\<in>set (specSeries sm n). 0 \<le> x \<and> x \<le> 1))"
proof -
  have inv: "extractorInv st"
    using assms(1) by (rule reachable_inv)
  let ?sm = "specSmoothed (map_option finiteVals (lastFrequencyData st)) fd"
  have lfd: "length fd = fftSize div 2"
    using inv assms(2) by (simp add: extractorInv_def split: option.splits)
  have r: "\<forall>x\<in>set ?sm. 0 \<le> x \<and> x \<le> 255" and l: "length ?sm = length fd"
    using smoothed_range [OF inv assms(2)] lfd by simp_all
  have n: "n \<le> length ?sm"
    using assms(4) l by simp
  have p: "\<forall>ls. lastFrequencyData st = Some ls \<longrightarrow> ls = map Num (finiteVals ls)"
  proof (intro allI impI)
    fix ls
    assume "lastFrequencyData st = Some ls"
    then have "list_all (finiteIn 0 255) ls"
      using inv by (simp add: extractorInv_def)
    then obtain prev where "ls = map Num prev"
      using list_all_finiteIn [of 0 255 ls] by auto
    then show "ls = map Num (finiteVals ls)"
      by simp
  qed
  have g: "getVisualizationData st n
            = (Inr (map Num (specSeries ?sm n)), st\<lparr>lastFrequencyData := Some (map Num ?sm)\<rparr>)"
    using series_Num [OF r assms(3) n]
    by (simp add: getVisualizationData_def getSmoothedFrequencyData_inv [OF inv assms(2)])
  have "length (specSeries ?sm n) = n"
    by (simp add: specSeries_def Let_def)
  then show ?thesis
    using p g l specSeries_range [OF r assms(3) n] by (simp add: Let_def)
qed

theorem series_in_unit_interval_witness:
  "reachable (snd (initialize AudioAnalyzer_new
                \<lparr> env_context = Some \<lparr> sampleRate = 44100, suspended = False \<rparr>,
                  env_resume_ok = True, env_source_ok = True \<rparr>))
   \<and> frequencyData (snd (initialize AudioAnalyzer_new
                \<lparr> env_context = Some \<lparr> sampleRate = 44100, suspended = False \<rparr>,
                  env_resume_ok = True, env_source_ok = True \<rparr>)) = Some (replicate 1024 0)
   \<and> (1::nat) \<le> 64 \<and> (64::nat) \<le> length (replicate 1024 (0 :: 8 word))
   \<and> length (specSeries (specSmoothed None (replicate 1024 0)) 64) = 64
   \<and> fst (getVisualizationData (snd (initialize AudioAnalyzer_new
                \<lparr> env_context = Some \<lparr> sampleRate = 44100, suspended = False \<rparr>,
                  env_resume_ok = True, env_source_ok = True \<rparr>)) 64)
       = Inr (map Num (specSeries (specSmoothed None (replicate 1024 0)) 64))"
proof -
  let ?env = "\<lparr> env_context = Some \<lparr> sampleRate = 44100, suspended = False \<rparr>,
                  env_resume_ok = True, env_source_ok = True \<rparr>"
  let ?st = "snd (initialize AudioAnalyzer_new ?env)"
  have r: "reachable ?st"
    by (rule reach_initialize [OF reach_new])
  have f: "frequencyData ?st = Some (replicate 1024 0)"
    by (simp add: initialize_ok)
  have l: "lastFrequencyData ?st = None"
    unfolding initialize_ok by (simp add: AudioAnalyzer_new_def)
  have n: "(1::nat) \<le> 64" "(64::nat) \<le> length (replicate 1024 (0 :: 8 word))"
    by simp_all
  show ?thesis
    using series_in_unit_interval [OF r f n] r f
    by (simp add: l Let_def)
qed

subsection \<open>Silence\<close>

lemma analyze_fields:
  assumes "analyser st = Some node" and "frequencyData st = Some fd0"
      and "timeData st = Some td0" and "audioContext st = Some ctx"
  shows "\<exists>frame st'. analyze st inp = (Inr frame, st')
           \<and> spectrum frame = getByteData (in_spectrum inp) fd0
           \<and> waveform frame = getByteData (in_waveform inp) td0
           \<and> volume frame = calculateVolume (getByteData (in_waveform inp) td0)
           \<and> energy frame = calculateEnergy (getByteData (in_spectrum inp) fd0)
           \<and> beat frame =
               fst (detectBeat exactArith
                     (st\<lparr>frequencyData := Some (getByteData (in_spectrum inp) fd0),
                         timeData := Some (getByteData (in_waveform inp) td0)\<rparr>)
                     (calculateEnergy (getByteData (in_spectrum inp) fd0)) (in_now inp))"
  using assms
  by (simp add: analyze_def Let_def split_beta detectBeat_other_fields)

lemma getByteData_const:
  "\<forall>i<length arr. src i = c \<Longrightarrow> getByteData src arr = replicate (length arr) c"
  unfolding getByteData_def by (rule nth_equalityI) simp_all

lemma calculateEnergy_silent: "0 < n \<Longrightarrow> calculateEnergy (replicate n 0) = Num 0"
  by (simp only: calculateEnergy_def foldl_energy) (simp add: magnitude_def sum_list_replicate)

lemma calculateVolume_silent: "0 < n \<Longrightarrow> calculateVolume (replicate n 128) = Num 0"
  by (simp only: calculateVolume_def foldl_volume)
     (simp add: sample_of_def magnitude_def sum_list_replicate)

lemma mean_nonneg: "\<forall>x\<in>set xs. 0 \<le> x \<Longrightarrow> 0 \<le> mean xs"
  by (simp add: mean_def sum_list_nonneg)

lemma no_beat_at_zero:
  assumes "list_all (finiteIn 0 1) (energyHistory st)"
  shows "fst (detectBeat exactArith st (Num 0) now) = False"
proof -
  obtain hs where hs: "energyHistory st = map Num hs" "\<forall>x\<in>set hs. 0 \<le> x \<and> x \<le> 1"
    using list_all_finiteIn [OF assms] by auto
  have "list_all (\<lambda>x. 0 \<le> x) (pushEnergy hs 0)"
    using hs(2) by (intro list_all_pushEnergy) (simp_all add: list_all_iff)
  then have "0 \<le> mean (pushEnergy hs 0)"
    by (intro mean_nonneg) (simp add: list_all_iff)
  moreover have "0 \<le> beatThreshold * sqrt (variance (pushEnergy hs 0))"
    using variance_nonneg [of "pushEnergy hs 0"] by (simp add: beatThreshold_def)
  ultimately have "\<not> mean (pushEnergy hs 0) + beatThreshold * sqrt (variance (pushEnergy hs 0)) < 0"
    by linarith
  then show ?thesis
    using detectBeat_Num [OF hs(1), of 0 now] by (simp add: Let_def)
qed

text \<open>
  C2: in every reachable state with the analyser present and the buffers allocated, an
  analysis cycle whose waveform samples are all 128 and whose spectrum bins are all 0
  produces a frame (it does not throw) with volume 0, energy 0 and no beat.
\<close>

theorem silent_input_frame:
  assumes "reachable st" and "analyser st \<noteq> None" and "frequencyData st = Some fd0"
      and "\<forall>i<length fd0. in_spectrum inp i = 0 \<and> in_waveform inp i = 128"
  shows "\<exists>frame st'. analyze st inp = (Inr frame, st')
           \<and> set (spectrum frame) = {0} \<and> set (waveform frame) = {128}
           \<and> volume frame = Num 0 \<and> energy frame = Num 0 \<and> beat frame = False"
proof -
  have inv: "extractorInv st"
    using assms(1) by (rule reachable_inv)
  obtain node where node: "analyser st = Some node"
    using assms(2) by auto
  obtain td0 where td: "timeData st = Some td0"
      and len: "length fd0 = fftSize div 2" "length td0 = fftSize div 2"
    using inv assms(3) by (auto simp: extractorInv_def split: option.splits)
  obtain ctx where ctx: "audioContext st = Some ctx"
    using inv node by (auto simp: extractorInv_def)
  have pos: "0 < length fd0"
    using len fftSize_bins by simp
  have fd: "getByteData (in_spectrum inp) fd0 = replicate (length fd0) 0"
    using assms(4) by (intro getByteData_const) simp
  have tdd: "getByteData (in_waveform inp) td0 = replicate (length fd0) 128"
    using assms(4) len getByteData_const [of td0 "in_waveform inp" 128] by simp
  let ?st2 = "st\<lparr>frequencyData := Some (replicate (length fd0) 0),
                  timeData := Some (replicate (length fd0) 128)\<rparr>"
  have h: "list_all (finiteIn 0 1) (energyHistory ?st2)"
    using inv by (simp add: extractorInv_def)
  have b: "fst (detectBeat exactArith ?st2 (Num 0) (in_now inp)) = False"
    using h by (rule no_beat_at_zero)
  obtain frame st' where A: "analyze st inp = (Inr frame, st')"
      and sp: "spectrum frame = getByteData (in_spectrum inp) fd0"
      and wf: "waveform frame = getByteData (in_waveform inp) td0"
      and vo: "volume frame = calculateVolume (getByteData (in_waveform inp) td0)"
      and en: "energy frame = calculateEnergy (getByteData (in_spectrum inp) fd0)"
      and be: "beat frame =
               fst (detectBeat exactArith
                     (st\<lparr>frequencyData := Some (getByteData (in_spectrum inp) fd0),
                         timeData := Some (getByteData (in_waveform inp) td0)\<rparr>)
                     (calculateEnergy (getByteData (in_spectrum inp) fd0)) (in_now inp))"
    using analyze_fields [OF node assms(3) td ctx, of inp] by blast
  have e0: "energy frame = Num 0"
    unfolding en fd using pos by (rule calculateEnergy_silent)
  have v0: "volume frame = Num 0"
    unfolding vo tdd using pos by (rule calculateVolume_silent)
  have b0: "beat frame = False"
    unfolding be fd tdd calculateEnergy_silent [OF pos] using b .
  have s0: "set (spectrum frame) = {0}" "set (waveform frame) = {128}"
    unfolding sp wf fd tdd using pos by simp_all
  show ?thesis
    using A s0 v0 e0 b0 by (intro exI [of _ frame] exI [of _ st'] conjI)
qed

theorem silent_input_frame_witness:
  "reachable (snd (initialize AudioAnalyzer_new
                \<lparr> env_context = Some \<lparr> sampleRate = 44100, suspended = False \<rparr>,
                  env_resume_ok = True, env_source_ok = True \<rparr>))
   \<and> analyser (snd (initialize AudioAnalyzer_new
                \<lparr> env_context = Some \<lparr> sampleRate = 44100, suspended = False \<rparr>,
                  env_resume_ok = True, env_source_ok = True \<rparr>)) \<noteq> None
   \<and> frequencyData (snd (initialize AudioAnalyzer_new
                \<lparr> env_context = Some \<lparr> sampleRate = 44100, suspended = False \<rparr>,
                  env_resume_ok = True, env_source_ok = True \<rparr>)) = Some (replicate 1024 0)
   \<and> (\<exists>frame st'.
        analyze (snd (initialize AudioAnalyzer_new
                \<lparr> env_context = Some \<lparr> sampleRate = 44100, suspended = False \<rparr>,
                  env_resume_ok = True, env_source_ok = True \<rparr>))
                \<lparr> in_spectrum = (\<lambda>i. 0), in_waveform = (\<lambda>i. 128), in_now = 1000 \<rparr>
          = (Inr frame, st')
        \<and> volume frame = Num 0 \<and> energy frame = Num 0 \<and> beat frame = False)"
proof -
  let ?env = "\<lparr> env_context = Some \<lparr> sampleRate = 44100, suspended = False \<rparr>,
                  env_resume_ok = True, env_source_ok = True \<rparr>"
  let ?st = "snd (initialize AudioAnalyzer_new ?env)"
  let ?inp = "\<lparr> in_spectrum = (\<lambda>i. 0), in_waveform = (\<lambda>i. 128), in_now = 1000 \<rparr>"
  have r: "reachable ?st"
    by (rule reach_initialize [OF reach_new])
  have a: "analyser ?st \<noteq> None"
    by (simp add: initialize_ok)
  have f: "frequencyData ?st = Some (replicate 1024 0)"
    by (simp add: initialize_ok)
  have s: "\<forall>i<length (replicate 1024 (0 :: 8 word)). in_spectrum ?inp i = 0 \<and> in_waveform ?inp i = 128"
    by simp
  have "\<exists>frame st'. analyze ?st ?inp = (Inr frame, st')
          \<and> volume frame = Num 0 \<and> energy frame = Num 0 \<and> beat frame = False"
    using silent_input_frame [OF r a f s] by (elim exE conjE) (intro exI conjI)
  then show ?thesis
    using r a f by (intro conjI)
qed

subsection \<open>The palette\<close>

lemma generateMoodPalette_neutral:
  "generateMoodPalette ''neutral'' en =
     Inr (map (adjustColor en)
           [\<lparr>hsl_h = 220, hsl_s = 50, hsl_l = 60\<rparr>, \<lparr>hsl_h = 280, hsl_s = 60, hsl_l = 65\<rparr>,
            \<lparr>hsl_h = 320, hsl_s = 70, hsl_l = 60\<rparr>, \<lparr>hsl_h = 180, hsl_s = 55, hsl_l = 65\<rparr>])"
  by (simp add: generateMoodPalette_def palettesGet_def palettes_def)

lemma generateMoodPalette_unknown:
  assumes "mood \<notin> fst ` set palettes" and "mood \<notin> set objectPrototypeKeys"
  shows "generateMoodPalette mood en = generateMoodPalette ''neutral'' en"
proof -
  have "map_of palettes mood = None"
    using assms(1) by (simp add: map_of_eq_None_iff)
  then have "palettesGet mood = UndefinedProperty"
    using assms(2) by (simp add: palettesGet_def)
  then show ?thesis
    by (simp add: generateMoodPalette_def generateMoodPalette_neutral [unfolded generateMoodPalette_def]
        palettesGet_def palettes_def)
qed

lemma generateMoodPalette_shape:
  assumes "generateMoodPalette mood en = Inr p"
  shows "length p = 4 \<and> (\<forall>c\<in>set p. length c = 3)"
proof -
  have own: "\<And>m b. map_of palettes m = Some b \<Longrightarrow> length b = 4"
    by (auto simp: palettes_def split: if_splits)
  have "\<And>c. length (adjustColor en c) = 3"
    by (simp add: adjustColor_def hslToRgb_def Let_def)
  then show ?thesis
    using assms own
    by (auto simp: generateMoodPalette_def palettesGet_def generateMoodPalette_neutral
        split: option.splits if_splits palette_property.splits)
qed

text \<open>
  C8 at the mood \<open>constructor\<close>, a string outside the five moods: \<open>palettes[mood]\<close> finds the
  inherited property \<open>Object.prototype.constructor\<close>, a function, so the fallback
  \<open>|| palettes.neutral\<close> is not taken and \<open>basePalette.map\<close> throws a TypeError, while
  the claim requires the palette of \<open>neutral\<close>. (For the keys that are neither a mood nor
  a property of \<open>Object.prototype\<close> the fallback holds, \<open>generateMoodPalette_unknown\<close>,
  and every palette returned has four colours of three components,
  \<open>generateMoodPalette_shape\<close>.)
\<close>

theorem generateMoodPalette_inherited_key:
  "generateMoodPalette ''constructor'' (1 / 2) = Inl TypeError
   \<and> generateMoodPalette ''constructor'' (1 / 2) \<noteq> generateMoodPalette ''neutral'' (1 / 2)"
proof -
  have "generateMoodPalette ''constructor'' (1 / 2) = Inl TypeError"
    by (simp add: generateMoodPalette_def palettesGet_def palettes_def objectPrototypeKeys_def)
  then show ?thesis
    by (simp add: generateMoodPalette_neutral)
qed

subsection \<open>The beat envelope\<close>

lemma updateVisualState_beatIntensity:
  "v2_beatIntensity (updateVisualState st analysis rnd)
     = (if beat analysis then 1 else v2_beatIntensity st) * (95 / 100)"
  by (simp add: updateVisualState_def Let_def switchMode_def beatDecay2D_def)

lemma addMesh_schedule [simp]:
  "v3_beatIntensity (addMesh st d) = v3_beatIntensity st"
  "v3_isRunning (addMesh st d) = v3_isRunning st"
  "v3_animationId (addMesh st d) = v3_animationId st"
  "v3_pending (addMesh st d) = v3_pending st"
  "v3_nextRequest (addMesh st d) = v3_nextRequest st"
  "v3_audioAnalyzer (addMesh st d) = v3_audioAnalyzer st"
  by (simp_all add: addMesh_def)

lemma foldl_addMesh_schedule [simp]:
  "v3_beatIntensity (foldl addMesh st ds) = v3_beatIntensity st"
  "v3_isRunning (foldl addMesh st ds) = v3_isRunning st"
  "v3_animationId (foldl addMesh st ds) = v3_animationId st"
  "v3_pending (foldl addMesh st ds) = v3_pending st"
  "v3_nextRequest (foldl addMesh st ds) = v3_nextRequest st"
  "v3_audioAnalyzer (foldl addMesh st ds) = v3_audioAnalyzer st"
  by (induction ds arbitrary: st) simp_all

lemma clearScene_schedule [simp]:
  "v3_beatIntensity (clearScene st) = v3_beatIntensity st"
  "v3_isRunning (clearScene st) = v3_isRunning st"
  "v3_animationId (clearScene st) = v3_animationId st"
  "v3_pending (clearScene st) = v3_pending st"
  "v3_nextRequest (clearScene st) = v3_nextRequest st"
  "v3_audioAnalyzer (clearScene st) = v3_audioAnalyzer st"
  by (simp_all add: clearScene_def)

lemma switchGeometry_schedule [simp]:
  "v3_beatIntensity (switchGeometry st) = v3_beatIntensity st"
  "v3_isRunning (switchGeometry st) = v3_isRunning st"
  "v3_animationId (switchGeometry st) = v3_animationId st"
  "v3_pending (switchGeometry st) = v3_pending st"
  "v3_nextRequest (switchGeometry st) = v3_nextRequest st"
  "v3_audioAnalyzer (switchGeometry st) = v3_audioAnalyzer st"
  by (simp_all add: switchGeometry_def createBarsGeometry_def createSphereGeometry_def
      createTunnelGeometry_def createWaveGeometry_def split: geometry.splits)

lemma updateVisuals_schedule [simp]:
  "v3_isRunning (updateVisuals st analysis rnd) = v3_isRunning st"
  "v3_animationId (updateVisuals st analysis rnd) = v3_animationId st"
  "v3_pending (updateVisuals st analysis rnd) = v3_pending st"
  "v3_nextRequest (updateVisuals st analysis rnd) = v3_nextRequest st"
  "v3_audioAnalyzer (updateVisuals st analysis rnd) = v3_audioAnalyzer st"
  by (simp_all add: updateVisuals_def Let_def)

lemma updateVisuals_beatIntensity:
  "v3_beatIntensity (updateVisuals st analysis rnd)
     = (if beat analysis then 1 else v3_beatIntensity st)"
  by (simp add: updateVisuals_def Let_def)

lemma animate_beatIntensity:
  assumes "v3_isRunning st" and "v3_audioAnalyzer st"
      and "fe3_analysis env = Inr (analysis, visualData)" and "fe3_update_ok env"
  shows "v3_beatIntensity (animate st env)
           = (if beat analysis then 1 else v3_beatIntensity st) * (95 / 100)"
  using assms
  by (simp add: animate_def Let_def updateVisuals_beatIntensity beatDecay3D_def)

text \<open>
  C5, as stated, on a beat frame: after the update of a frame with \<open>beat = true\<close> the
  beat intensity of the raster visualizer, and that of the running scene visualizer, is
  not 1 (it is 0.95): the decay is applied on the beat frame too.
\<close>

theorem beat_frame_intensity_counterexample:
  "v2_beatIntensity
     (updateVisualState (Visualizer2D_new 800 600 (\<lambda>i. 1 / 2))
        (defaultAnalysis\<lparr>beat := True\<rparr>) (\<lambda>i. 1 / 2)) \<noteq> 1
   \<and> v3_beatIntensity
       (animate (Visualizer3D_new\<lparr>v3_isRunning := True, v3_audioAnalyzer := True\<rparr>)
          \<lparr> fe3_analysis = Inr (defaultAnalysis\<lparr>beat := True\<rparr>, []),
            fe3_random = (\<lambda>i. 1 / 2), fe3_update_ok = True \<rparr>) \<noteq> 1"
proof -
  have "v3_beatIntensity
       (animate (Visualizer3D_new\<lparr>v3_isRunning := True, v3_audioAnalyzer := True\<rparr>)
          \<lparr> fe3_analysis = Inr (defaultAnalysis\<lparr>beat := True\<rparr>, []),
            fe3_random = (\<lambda>i. 1 / 2), fe3_update_ok = True \<rparr>) = 95 / 100"
    by (subst animate_beatIntensity [where analysis = "defaultAnalysis\<lparr>beat := True\<rparr>" and visualData = "[]"])
       simp_all
  then show ?thesis
    by (simp add: updateVisualState_beatIntensity)
qed

text \<open>
  C5 (amended): in the per-frame state update of each renderer the beat intensity is set
  to 1 on a frame whose analysis has \<open>beat = true\<close> and is then, on every frame, beat or
  not, multiplied by the decay constant 0.95; so immediately after a beat frame's update
  it equals 0.95. For the scene visualizer this is the frame of a running visualizer whose
  analyzer calls and updates return; without an analyzer the intensity only decays.
\<close>

theorem beat_intensity_envelope:
  "v2_beatIntensity (updateVisualState st analysis rnd)
     = (if beat analysis then 1 else v2_beatIntensity st) * (95 / 100)
   \<and> (v3_isRunning st3 \<and> v3_audioAnalyzer st3
        \<and> fe3_analysis env = Inr (analysis3, visualData) \<and> fe3_update_ok env
      \<longrightarrow> v3_beatIntensity (animate st3 env)
            = (if beat analysis3 then 1 else v3_beatIntensity st3) * (95 / 100))
   \<and> (v3_isRunning st3 \<and> \<not> v3_audioAnalyzer st3
      \<longrightarrow> v3_beatIntensity (animate st3 env) = v3_beatIntensity st3 * (95 / 100))"
  using animate_beatIntensity [of st3 env analysis3 visualData]
  by (simp add: updateVisualState_beatIntensity animate_def Let_def beatDecay3D_def)

theorem beat_intensity_envelope_witness:
  "v2_beatIntensity
     (updateVisualState (Visualizer2D_new 800 600 (\<lambda>i. 1 / 2))
        (defaultAnalysis\<lparr>beat := True\<rparr>) (\<lambda>i. 1 / 2)) = 95 / 100
   \<and> v3_isRunning (Visualizer3D_new\<lparr>v3_isRunning := True, v3_audioAnalyzer := True\<rparr>)
   \<and> v3_audioAnalyzer (Visualizer3D_new\<lparr>v3_isRunning := True, v3_audioAnalyzer := True\<rparr>)
   \<and> v3_beatIntensity
       (animate (Visualizer3D_new\<lparr>v3_isRunning := True, v3_audioAnalyzer := True\<rparr>)
          \<lparr> fe3_analysis = Inr (defaultAnalysis\<lparr>beat := True\<rparr>, []),
            fe3_random = (\<lambda>i. 1 / 2), fe3_update_ok = True \<rparr>) = 95 / 100"
  using beat_intensity_envelope
          [of "Visualizer2D_new 800 600 (\<lambda>i. 1 / 2)" "defaultAnalysis\<lparr>beat := True\<rparr>" "\<lambda>i. 1 / 2"
              "Visualizer3D_new\<lparr>v3_isRunning := True, v3_audioAnalyzer := True\<rparr>"
              "\<lparr> fe3_analysis = Inr (defaultAnalysis\<lparr>beat := True\<rparr>, []),
                 fe3_random = (\<lambda>i. 1 / 2), fe3_update_ok = True \<rparr>"
              "defaultAnalysis\<lparr>beat := True\<rparr>" "[]"]
  by simp

subsection \<open>The particle pool\<close>




lemma updateVisualState_particles [simp]:
  "v2_particles (updateVisualState st analysis rnd) = v2_particles st"
  by (simp add: updateVisualState_def Let_def switchMode_def)

lemma updateFPS_particles [simp]: "v2_particles (updateFPS st t) = v2_particles st"
  by (simp add: updateFPS_def Let_def)







lemma new2D_size [simp]:
  "v2_width (Visualizer2D_new w h rnd) = w"
  "v2_height (Visualizer2D_new w h rnd) = h"
  by (simp_all add: Visualizer2D_new_def initializeParticles_def)





subsection \<open>Start and stop\<close>

lemma stop2D_idem: "stop2D (stop2D st) = stop2D st"
  by (cases "v2_animationLoop st")
     (auto simp: stop2D_def loopStop_def Let_def split: option.splits)

lemma stop3D_idem: "stop3D (stop3D st) = stop3D st"
  by (cases "v3_animationId st") (auto simp: stop3D_def Let_def)

lemma stop2D_inactive:
  "v2_isRunning (stop2D st) = False"
  "\<forall>lp. v2_animationLoop (stop2D st) = Some lp \<longrightarrow> loop_isRunning lp = False"
  by (auto simp: stop2D_def loopStop_def Let_def split: option.splits)

lemma stop3D_inactive: "v3_isRunning (stop3D st) = False"
  by (auto simp: stop3D_def Let_def split: option.splits)

lemma stop2D_new: "stop2D (Visualizer2D_new w h rnd) = Visualizer2D_new w h rnd"
  by (simp add: stop2D_def Let_def Visualizer2D_new_def initializeParticles_def)

lemma updateFPS_schedule [simp]:
  "v2_isRunning (updateFPS st t) = v2_isRunning st"
  "v2_animationLoop (updateFPS st t) = v2_animationLoop st"
  "v2_pending (updateFPS st t) = v2_pending st"
  "v2_nextRequest (updateFPS st t) = v2_nextRequest st"
  by (simp_all add: updateFPS_def Let_def)

lemma updateVisualState_schedule [simp]:
  "v2_isRunning (updateVisualState st a rnd) = v2_isRunning st"
  "v2_animationLoop (updateVisualState st a rnd) = v2_animationLoop st"
  "v2_pending (updateVisualState st a rnd) = v2_pending st"
  "v2_nextRequest (updateVisualState st a rnd) = v2_nextRequest st"
  by (simp_all add: updateVisualState_def Let_def switchMode_def)

lemma renderParticles_schedule [simp]:
  "v2_isRunning (snd (renderParticles st data draws rnd k)) = v2_isRunning st"
  "v2_animationLoop (snd (renderParticles st data draws rnd k)) = v2_animationLoop st"
  "v2_pending (snd (renderParticles st data draws rnd k)) = v2_pending st"
  "v2_nextRequest (snd (renderParticles st data draws rnd k)) = v2_nextRequest st"
  by (simp_all add: renderParticles_def split_beta)

lemma render_schedule [simp]:
  "v2_isRunning (snd (render st env)) = v2_isRunning st"
  "v2_animationLoop (snd (render st env)) = v2_animationLoop st"
  "v2_pending (snd (render st env)) = v2_pending st"
  "v2_nextRequest (snd (render st env)) = v2_nextRequest st"
  by (auto simp: render_def Let_def split_beta updateTransitions_def split: sum.splits)

lemma scheduled2D_new: "scheduled2D (Visualizer2D_new w h rnd)"
  by (simp add: scheduled2D_def Visualizer2D_new_def initializeParticles_def)

lemma scheduled2D_start: "scheduled2D st \<Longrightarrow> scheduled2D (start2D st)"
  by (auto simp: scheduled2D_def start2D_def split: option.splits)

lemma scheduled2D_stop: "scheduled2D st \<Longrightarrow> scheduled2D (stop2D st)"
  by (auto simp: scheduled2D_def stop2D_def loopStop_def Let_def split: option.splits)

lemma stop2D_pending: "scheduled2D st \<Longrightarrow> v2_pending (stop2D st) = {}"
  by (auto simp: scheduled2D_def stop2D_def loopStop_def Let_def split: option.splits)

lemma scheduled2D_dispose: "scheduled2D st \<Longrightarrow> scheduled2D (dispose2D st)"
  using scheduled2D_stop [of st] stop2D_pending [of st]
  by (auto simp: scheduled2D_def dispose2D_def loopStop_def Let_def split: option.splits)

lemma scheduled2D_tick:
  assumes "scheduled2D st"
  shows "scheduled2D (tick2D st env)"
proof (cases "v2_animationLoop st")
  case None
  then show ?thesis using assms by (simp add: tick2D_def)
next
  case (Some lp)
  show ?thesis
  proof (cases "loop_animationId lp")
    case None
    then show ?thesis using assms Some by (simp add: tick2D_def)
  next
    case id: (Some h)
    show ?thesis
    proof (cases "h \<in> v2_pending st")
      case False
      then show ?thesis using assms Some id by (simp add: tick2D_def)
    next
      case True
      then have run: "v2_isRunning st" and p: "v2_pending st - {h} = {}"
          and h: "h \<noteq> 0" "h < v2_nextRequest st" and n: "v2_nextRequest st \<noteq> 0"
        using assms Some id by (auto simp: scheduled2D_def)
      let ?st1 = "st\<lparr>v2_pending := v2_pending st - {h}\<rparr>"
      show ?thesis
        using True Some id run p h n
        by (auto simp: tick2D_def Let_def split_beta scheduled2D_def)
    qed
  qed
qed

lemma scheduled2D_fields:
  assumes "v2_isRunning st' = v2_isRunning st" and "v2_animationLoop st' = v2_animationLoop st"
      and "v2_pending st' = v2_pending st" and "v2_nextRequest st' = v2_nextRequest st"
  shows "scheduled2D st' = scheduled2D st"
  unfolding scheduled2D_def assms ..

lemma scheduled2D_step: "scheduled2D st \<Longrightarrow> scheduled2D (step2D st ev)"
proof (cases ev)
  case (UpdateColorPalette2D mood en)
  have "scheduled2D (updateColorPalette2D st mood en) = scheduled2D st"
    by (rule scheduled2D_fields) (simp_all add: updateColorPalette2D_def split: sum.splits)
  moreover assume "scheduled2D st"
  ultimately show ?thesis
    using UpdateColorPalette2D by simp
next
  case SetAudioAnalyzer2D
  have "scheduled2D (setAudioAnalyzer2D st) = scheduled2D st"
    by (rule scheduled2D_fields) (simp_all add: setAudioAnalyzer2D_def)
  moreover assume "scheduled2D st"
  ultimately show ?thesis
    using SetAudioAnalyzer2D by simp
next
  case (Resize2D w h)
  have "scheduled2D (resize st w h) = scheduled2D st"
    by (rule scheduled2D_fields) (simp_all add: resize_def)
  moreover assume "scheduled2D st"
  ultimately show ?thesis
    using Resize2D by simp
qed (simp_all add: scheduled2D_start scheduled2D_stop scheduled2D_tick scheduled2D_dispose)

lemma scheduled2D_run: "scheduled2D st \<Longrightarrow> scheduled2D (run2D st evs)"
  unfolding run2D_def
  by (induction evs arbitrary: st) (simp_all add: scheduled2D_step)

lemma tick2D_idle: "v2_pending st = {} \<Longrightarrow> tick2D st env = st"
  by (simp add: tick2D_def split: option.splits)

lemma scheduled3D_fields:
  assumes "v3_isRunning st' = v3_isRunning st" and "v3_animationId st' = v3_animationId st"
      and "v3_pending st' = v3_pending st" and "v3_nextRequest st' = v3_nextRequest st"
  shows "scheduled3D st' = scheduled3D st"
  unfolding scheduled3D_def assms ..

lemma createBarsGeometry_schedule [simp]:
  "v3_isRunning (createBarsGeometry st) = v3_isRunning st"
  "v3_animationId (createBarsGeometry st) = v3_animationId st"
  "v3_pending (createBarsGeometry st) = v3_pending st"
  "v3_nextRequest (createBarsGeometry st) = v3_nextRequest st"
  by (simp_all add: createBarsGeometry_def)

lemma scheduled3D_new: "scheduled3D Visualizer3D_new"
  by (simp add: scheduled3D_def Visualizer3D_new_def)

lemma scheduled3D_animate:
  assumes "scheduled3D st" and "v3_pending st = {}"
  shows "scheduled3D (animate st env)"
proof (cases "v3_isRunning st")
  case False
  then show ?thesis using assms by (simp add: animate_def)
next
  case True
  let ?st1 = "st\<lparr>v3_animationId := Some (v3_nextRequest st),
                  v3_pending := insert (v3_nextRequest st) (v3_pending st),
                  v3_nextRequest := Suc (v3_nextRequest st)\<rparr>"
  have s1: "scheduled3D ?st1"
    using assms True by (simp add: scheduled3D_def)
  have "scheduled3D (animate st env) = scheduled3D ?st1"
    using True
    by (intro scheduled3D_fields)
       (auto simp: animate_def Let_def split: sum.splits)
  then show ?thesis
    using s1 by simp
qed

lemma scheduled3D_start: "scheduled3D st \<Longrightarrow> scheduled3D (start3D st env)"
proof -
  assume s: "scheduled3D st"
  show ?thesis
  proof (cases "v3_isRunning st")
    case True
    then show ?thesis using s by (simp add: start3D_def)
  next
    case False
    then have p: "v3_pending st = {}"
      using s by (simp add: scheduled3D_def)
    have "scheduled3D (st\<lparr>v3_isRunning := True\<rparr>)"
      using s p by (auto simp: scheduled3D_def split: option.splits)
    then have "scheduled3D (animate (st\<lparr>v3_isRunning := True\<rparr>) env)"
      using p by (intro scheduled3D_animate) simp_all
    then show ?thesis
      using False by (simp add: start3D_def)
  qed
qed

lemma scheduled3D_stop: "scheduled3D st \<Longrightarrow> scheduled3D (stop3D st)"
  by (auto simp: scheduled3D_def stop3D_def Let_def split: option.splits)

lemma stop3D_pending:
  "scheduled3D st \<Longrightarrow> v3_pending (stop3D st) = {} \<and> v3_animationId (stop3D st) = None"
  by (auto simp: scheduled3D_def stop3D_def Let_def split: option.splits)

lemma scheduled3D_tick: "scheduled3D st \<Longrightarrow> scheduled3D (tick3D st h env)"
proof -
  assume s: "scheduled3D st"
  show ?thesis
  proof (cases "h \<in> v3_pending st")
    case False
    then show ?thesis using s by (simp add: tick3D_def)
  next
    case True
    then have e: "v3_pending st - {h} = {}" and r: "v3_isRunning st"
      using s by (auto simp: scheduled3D_def split: option.splits)
    have "scheduled3D (st\<lparr>v3_pending := {}\<rparr>)"
      using s by (auto simp: scheduled3D_def split: option.splits)
    then have "scheduled3D (animate (st\<lparr>v3_pending := {}\<rparr>) env)"
      by (intro scheduled3D_animate) simp_all
    then show ?thesis
      using True by (simp add: tick3D_def e)
  qed
qed

lemma scheduled3D_step: "scheduled3D st \<Longrightarrow> scheduled3D (step3D st ev)"
proof (cases ev)
  case (UpdateColorPalette3D mood en)
  have "scheduled3D (updateColorPalette3D st mood en) = scheduled3D st"
    by (rule scheduled3D_fields) (simp_all add: updateColorPalette3D_def split: sum.splits)
  moreover assume "scheduled3D st"
  ultimately show ?thesis
    using UpdateColorPalette3D by simp
next
  case SetAudioAnalyzer3D
  have "scheduled3D (setAudioAnalyzer3D st) = scheduled3D st"
    by (rule scheduled3D_fields) (simp_all add: setAudioAnalyzer3D_def)
  moreover assume "scheduled3D st"
  ultimately show ?thesis
    using SetAudioAnalyzer3D by simp
qed (simp_all add: scheduled3D_start scheduled3D_stop scheduled3D_tick)

lemma scheduled3D_run: "scheduled3D st \<Longrightarrow> scheduled3D (run3D st evs)"
  unfolding run3D_def
  by (induction evs arbitrary: st) (simp_all add: scheduled3D_step)

lemma tick3D_idle: "v3_pending st = {} \<Longrightarrow> tick3D st h env = st"
  by (simp add: tick3D_def)

lemma stop3D_new: "stop3D Visualizer3D_new = Visualizer3D_new"
proof -
  have "v3_isRunning Visualizer3D_new = False" "v3_animationId Visualizer3D_new = None"
    by (simp_all add: Visualizer3D_new_def)
  then show ?thesis
    by (simp add: stop3D_def Let_def)
qed

text \<open>
  C9: for either visualizer, \<open>stop\<close> after \<open>stop\<close> leaves exactly the state of one \<open>stop\<close>
  (the model of \<open>stop\<close> has no failing path); in it the running flag is false and, in
  every state reached from construction by the modelled operations, no animation-frame
  request of the visualizer remains scheduled, so a callback run by the host changes
  nothing. On a visualizer that was never started \<open>stop\<close> changes nothing.
\<close>

theorem stop_idempotent:
  "stop2D (stop2D st) = stop2D st
   \<and> v2_isRunning (stop2D st) = False
   \<and> v2_pending (stop2D (run2D (Visualizer2D_new w h rnd) evs)) = {}
   \<and> tick2D (stop2D (run2D (Visualizer2D_new w h rnd) evs)) env
       = stop2D (run2D (Visualizer2D_new w h rnd) evs)
   \<and> stop2D (Visualizer2D_new w h rnd) = Visualizer2D_new w h rnd
   \<and> stop3D (stop3D st3) = stop3D st3
   \<and> v3_isRunning (stop3D st3) = False
   \<and> v3_animationId (stop3D (run3D Visualizer3D_new evs3)) = None
   \<and> v3_pending (stop3D (run3D Visualizer3D_new evs3)) = {}
   \<and> tick3D (stop3D (run3D Visualizer3D_new evs3)) handle env3
       = stop3D (run3D Visualizer3D_new evs3)
   \<and> stop3D Visualizer3D_new = Visualizer3D_new"
proof -
  have s2: "scheduled2D (run2D (Visualizer2D_new w h rnd) evs)"
    by (intro scheduled2D_run scheduled2D_new)
  have s3: "scheduled3D (run3D Visualizer3D_new evs3)"
    by (intro scheduled3D_run scheduled3D_new)
  note p2 = stop2D_pending [OF s2]
  note p3 = stop3D_pending [OF s3]
  show ?thesis
    using p2 p3 tick2D_idle [OF p2, of env] tick3D_idle [OF p3 [THEN conjunct1], of handle env3]
    by (simp add: stop2D_idem stop3D_idem stop2D_inactive(1) stop3D_inactive stop2D_new stop3D_new)
qed

theorem stop_idempotent_witness:
  "stop2D (stop2D (start2D (Visualizer2D_new 800 600 (\<lambda>i. 1 / 2))))
     = stop2D (start2D (Visualizer2D_new 800 600 (\<lambda>i. 1 / 2)))
   \<and> v2_isRunning (stop2D (start2D (Visualizer2D_new 800 600 (\<lambda>i. 1 / 2)))) = False
   \<and> v2_pending (stop2D (run2D (Visualizer2D_new 800 600 (\<lambda>i. 1 / 2))
                             [SetAudioAnalyzer2D, Start2D])) = {}
   \<and> stop3D (stop3D (run3D Visualizer3D_new [SetAudioAnalyzer3D]))
       = stop3D (run3D Visualizer3D_new [SetAudioAnalyzer3D])
   \<and> v3_pending (stop3D (run3D Visualizer3D_new [SetAudioAnalyzer3D])) = {}
   \<and> stop3D Visualizer3D_new = Visualizer3D_new"
  using stop_idempotent
          [of "start2D (Visualizer2D_new 800 600 (\<lambda>i. 1 / 2))" 800 600 "\<lambda>i. 1 / 2"
              "[SetAudioAnalyzer2D, Start2D]"
              "\<lparr> fe_timestamp = 16, fe_analysis = Inl TypeError, fe_random = (\<lambda>i. 1 / 2),
                 fe_background_ok = True, fe_mode_ok = True, fe_particle_ok = (\<lambda>i. True),
                 fe_effects_ok = True \<rparr>"
              "run3D Visualizer3D_new [SetAudioAnalyzer3D]" "[SetAudioAnalyzer3D]" 1
              "\<lparr> fe3_analysis = Inl TypeError, fe3_random = (\<lambda>i. 1 / 2),
                 fe3_update_ok = True \<rparr>"]
  by blast

subsection \<open>The objects of the scene\<close>

lemma foldl_addMesh_objects:
  "map uid (v3_visualObjects (foldl addMesh st ds))
     = map uid (v3_visualObjects st) @ [v3_nextUid st..<v3_nextUid st + length ds]
   \<and> map userData (v3_visualObjects (foldl addMesh st ds))
     = map userData (v3_visualObjects st) @ ds
   \<and> v3_scene (foldl addMesh st ds) = v3_scene st @ [v3_nextUid st..<v3_nextUid st + length ds]
   \<and> v3_nextUid (foldl addMesh st ds) = v3_nextUid st + length ds
   \<and> v3_disposed (foldl addMesh st ds) = v3_disposed st
   \<and> v3_geometryType (foldl addMesh st ds) = v3_geometryType st"
proof (induction ds arbitrary: st)
  case Nil
  show ?case by simp
next
  case (Cons d ds)
  show ?case
    using Cons [of "addMesh st d"]
    by (simp add: addMesh_def upt_conv_Cons del: upt_Suc)
qed

lemma remove_objects:
  "distinct xs \<Longrightarrow>
   distinct (foldl (\<lambda>children obj. remove1 (uid obj) children) xs objs)
   \<and> set (foldl (\<lambda>children obj. remove1 (uid obj) children) xs objs)
       = set xs - uid ` set objs"
proof (induction objs arbitrary: xs)
  case Nil
  then show ?case by simp
next
  case (Cons obj objs)
  have "distinct (remove1 (uid obj) xs)"
    using Cons.prems by (rule distinct_remove1)
  from Cons.IH [OF this] show ?case
    using Cons.prems by auto
qed

lemma rebuild:
  fixes st :: Visualizer3D and ds :: "userData list" and g :: geometry
  assumes "sceneWf st"
  defines "st' \<equiv> (foldl addMesh (clearScene st) ds)\<lparr>v3_geometryType := g\<rparr>"
  shows "length (v3_visualObjects st') = length ds"
    and "sceneWf st'"
    and "replacesAll st st'"
proof -
  let ?c = "clearScene st"
  let ?n = "v3_nextUid st"
  note f = foldl_addMesh_objects [of ?c ds]
  have d: "distinct (v3_scene st)"
      and b: "\<forall>u\<in>set (v3_scene st). u < ?n" "\<forall>obj\<in>set (v3_visualObjects st). uid obj < ?n"
    using assms(1) by (simp_all add: sceneWf_def list_all_iff)
  have c: "v3_visualObjects ?c = []" "v3_nextUid ?c = ?n"
      "v3_disposed ?c = v3_disposed st @ map uid (v3_visualObjects st)"
      "distinct (v3_scene ?c)"
      "set (v3_scene ?c) = set (v3_scene st) - uid ` set (v3_visualObjects st)"
    using remove_objects [OF d, of "v3_visualObjects st"] by (simp_all add: clearScene_def)
  have uids: "map uid (v3_visualObjects st') = [?n..<?n + length ds]"
      and sc: "v3_scene st' = v3_scene ?c @ [?n..<?n + length ds]"
      and nx: "v3_nextUid st' = ?n + length ds"
      and dp: "v3_disposed st' = v3_disposed st @ map uid (v3_visualObjects st)"
    using f c by (simp_all add: st'_def)
  have len: "length (map uid (v3_visualObjects st')) = length ds"
    unfolding uids by simp
  then show "length (v3_visualObjects st') = length ds"
    by simp
  have us: "uid ` set (v3_visualObjects st') = {?n..<?n + length ds}"
    using uids by (metis atLeastLessThan_upt set_map)
  have old_lt: "\<forall>u\<in>set (v3_scene ?c). u < ?n"
    using b(1) c(5) by auto
  show "sceneWf st'"
    unfolding sceneWf_def list_all_iff
  proof (intro conjI ballI)
    show "distinct (v3_scene st')"
      unfolding sc using c(4) old_lt by auto
    fix u assume "u \<in> set (v3_scene st')"
    then show "u < v3_nextUid st'"
      unfolding sc nx using old_lt by auto
  next
    fix obj assume "obj \<in> set (v3_visualObjects st')"
    then have "uid obj \<in> {?n..<?n + length ds}"
      using us by blast
    then show "uid obj < v3_nextUid st'"
      unfolding nx by simp
  qed
  show "replacesAll st st'"
    unfolding replacesAll_def us
  proof (intro conjI)
    show "uid ` set (v3_visualObjects st) \<inter> set (v3_scene st') = {}"
      unfolding sc using c(5) b(2) by auto
    show "uid ` set (v3_visualObjects st) \<inter> {?n..<?n + length ds} = {}"
      using b(2) by auto
    show "uid ` set (v3_visualObjects st) \<subseteq> set (v3_disposed st')"
      unfolding dp by auto
    show "set (v3_scene st')
          = (set (v3_scene st) - uid ` set (v3_visualObjects st)) \<union> {?n..<?n + length ds}"
      unfolding sc using c(5) by auto
  qed
qed

lemma length_grid:
  "length (concat (map (\<lambda>x. map (f x) [0..<m]) [0..<n])) = n * m"
  by (induction n) simp_all

lemma sceneInv_fields:
  assumes "v3_scene st' = v3_scene st" and "v3_visualObjects st' = v3_visualObjects st"
      and "v3_nextUid st' = v3_nextUid st" and "v3_geometryType st' = v3_geometryType st"
  shows "sceneInv st' = sceneInv st"
  unfolding sceneInv_def sceneWf_def assms ..

lemma rebuild_inv:
  fixes st :: Visualizer3D and ds :: "userData list" and g :: geometry
  assumes w: "sceneWf st" and "length ds = variantCount g"
  shows "sceneInv ((foldl addMesh (clearScene st) ds)\<lparr>v3_geometryType := g\<rparr>)"
    and "replacesAll st ((foldl addMesh (clearScene st) ds)\<lparr>v3_geometryType := g\<rparr>)"
    and "length (v3_visualObjects ((foldl addMesh (clearScene st) ds)\<lparr>v3_geometryType := g\<rparr>))
           = variantCount g"
proof -
  show "sceneInv ((foldl addMesh (clearScene st) ds)\<lparr>v3_geometryType := g\<rparr>)"
    unfolding sceneInv_def using rebuild(1,2) [OF w, where ds = ds and g = g] assms(2) by simp
  show "replacesAll st ((foldl addMesh (clearScene st) ds)\<lparr>v3_geometryType := g\<rparr>)"
    by (rule rebuild(3) [OF w])
  show "length (v3_visualObjects ((foldl addMesh (clearScene st) ds)\<lparr>v3_geometryType := g\<rparr>))
           = variantCount g"
    using rebuild(1) [OF w, where ds = ds and g = g] assms(2) by simp
qed

lemma createBars_inv:
  assumes "sceneWf st"
  shows "sceneInv (createBarsGeometry st)" and "replacesAll st (createBarsGeometry st)"
    and "length (v3_visualObjects (createBarsGeometry st)) = 64"
    and "v3_geometryType (createBarsGeometry st) = Bars"
  using rebuild_inv [OF assms, where ds = "map barData [0..<64]" and g = Bars]
  by (simp_all add: createBarsGeometry_def)

lemma createSphere_inv:
  assumes "sceneWf st"
  shows "sceneInv (createSphereGeometry st)" and "replacesAll st (createSphereGeometry st)"
    and "length (v3_visualObjects (createSphereGeometry st)) = 100"
    and "v3_geometryType (createSphereGeometry st) = Sphere"
  using rebuild_inv [OF assms, where ds = "map sphereData [0..<100]" and g = Sphere]
  by (simp_all add: createSphereGeometry_def)

lemma createTunnel_inv:
  assumes "sceneWf st"
  shows "sceneInv (createTunnelGeometry st)" and "replacesAll st (createTunnelGeometry st)"
    and "length (v3_visualObjects (createTunnelGeometry st)) = 640"
    and "v3_geometryType (createTunnelGeometry st) = Tunnel"
  using rebuild_inv [OF assms,
      where ds = "concat (map (\<lambda>ring. map (tunnelData ring) [0..<32]) [0..<20])" and g = Tunnel]
  by (simp_all add: createTunnelGeometry_def length_grid)

lemma createWave_inv:
  assumes "sceneWf st"
  shows "sceneInv (createWaveGeometry st)" and "replacesAll st (createWaveGeometry st)"
    and "length (v3_visualObjects (createWaveGeometry st)) = 1024"
    and "v3_geometryType (createWaveGeometry st) = Wave"
  using rebuild_inv [OF assms,
      where ds = "concat (map (\<lambda>x. map (WaveData x) [0..<32]) [0..<32])" and g = Wave]
  by (simp_all add: createWaveGeometry_def length_grid)

lemma switchGeometry_inv:
  assumes "sceneInv st"
  shows "sceneInv (switchGeometry st)" and "replacesAll st (switchGeometry st)"
    and "length (v3_visualObjects (switchGeometry st))
           = variantCount (v3_geometryType (switchGeometry st))"
    and "v3_geometryType (switchGeometry st) \<noteq> v3_geometryType st"
proof -
  have w: "sceneWf st"
    using assms by (simp add: sceneInv_def)
  show "sceneInv (switchGeometry st)" and "replacesAll st (switchGeometry st)"
    and "length (v3_visualObjects (switchGeometry st))
           = variantCount (v3_geometryType (switchGeometry st))"
    and "v3_geometryType (switchGeometry st) \<noteq> v3_geometryType st"
    using createBars_inv [OF w] createSphere_inv [OF w] createTunnel_inv [OF w]
      createWave_inv [OF w]
    by (simp_all add: switchGeometry_def split: geometry.splits)
qed

lemma sceneInv_updateVisuals: "sceneInv st \<Longrightarrow> sceneInv (updateVisuals st analysis rnd)"
proof -
  assume s: "sceneInv st"
  have "sceneInv (st\<lparr>v3_beatIntensity := 1\<rparr>) = sceneInv st"
    by (rule sceneInv_fields) simp_all
  then have b: "sceneInv (st\<lparr>v3_beatIntensity := 1\<rparr>)"
    using s by simp
  show ?thesis
    using s b switchGeometry_inv(1) [OF b] by (simp add: updateVisuals_def Let_def)
qed

lemma sceneInv_animate: "sceneInv st \<Longrightarrow> sceneInv (animate st env)"
proof -
  assume s: "sceneInv st"
  let ?st2 = "st\<lparr>v3_animationId := Some (v3_nextRequest st),
                  v3_pending := insert (v3_nextRequest st) (v3_pending st),
                  v3_nextRequest := Suc (v3_nextRequest st),
                  v3_time := v3_time st + 16 / 1000\<rparr>"
  have "sceneInv ?st2 = sceneInv st"
    by (rule sceneInv_fields) simp_all
  then have s2: "sceneInv ?st2"
    using s by simp
  have d: "sceneInv (?st2\<lparr>v3_beatIntensity := v3_beatIntensity ?st2 * beatDecay3D\<rparr>)"
    using s2 sceneInv_fields [of "?st2\<lparr>v3_beatIntensity := v3_beatIntensity ?st2 * beatDecay3D\<rparr>" ?st2]
    by simp
  have u: "\<And>a. sceneInv (updateVisuals ?st2 a (fe3_random env))"
    using s2 by (rule sceneInv_updateVisuals)
  have v: "\<And>a. sceneInv ((updateVisuals ?st2 a (fe3_random env))
             \<lparr>v3_beatIntensity := v3_beatIntensity (updateVisuals ?st2 a (fe3_random env)) * beatDecay3D\<rparr>)"
  proof -
    fix a
    have "sceneInv ((updateVisuals ?st2 a (fe3_random env))
             \<lparr>v3_beatIntensity := v3_beatIntensity (updateVisuals ?st2 a (fe3_random env)) * beatDecay3D\<rparr>)
          = sceneInv (updateVisuals ?st2 a (fe3_random env))"
      by (rule sceneInv_fields) simp_all
    then show "sceneInv ((updateVisuals ?st2 a (fe3_random env))
             \<lparr>v3_beatIntensity := v3_beatIntensity (updateVisuals ?st2 a (fe3_random env)) * beatDecay3D\<rparr>)"
      using u by simp
  qed
  show ?thesis
    using s s2 d u v by (auto simp: animate_def Let_def split: sum.splits)
qed

lemma sceneInv_step: "sceneInv st \<Longrightarrow> sceneInv (step3D st ev)"
proof (cases ev)
  case (Start3D env)
  assume s: "sceneInv st"
  have "sceneInv (st\<lparr>v3_isRunning := True\<rparr>) = sceneInv st"
    by (rule sceneInv_fields) simp_all
  then have "sceneInv (animate (st\<lparr>v3_isRunning := True\<rparr>) env)"
    using s by (intro sceneInv_animate) simp
  then show ?thesis
    using s Start3D by (simp add: start3D_def)
next
  case Stop3D
  assume s: "sceneInv st"
  have "sceneInv (stop3D st) = sceneInv st"
    by (rule sceneInv_fields) (simp_all add: stop3D_def Let_def split: option.splits)
  then show ?thesis
    using s Stop3D by simp
next
  case (Tick3D h env)
  assume s: "sceneInv st"
  have "sceneInv (st\<lparr>v3_pending := v3_pending st - {h}\<rparr>) = sceneInv st"
    by (rule sceneInv_fields) simp_all
  then have "sceneInv (animate (st\<lparr>v3_pending := v3_pending st - {h}\<rparr>) env)"
    using s by (intro sceneInv_animate) simp
  then show ?thesis
    using s Tick3D by (simp add: tick3D_def)
next
  case SetAudioAnalyzer3D
  assume s: "sceneInv st"
  have "sceneInv (setAudioAnalyzer3D st) = sceneInv st"
    by (rule sceneInv_fields) (simp_all add: setAudioAnalyzer3D_def)
  then show ?thesis
    using s SetAudioAnalyzer3D by simp
next
  case (UpdateColorPalette3D mood en)
  assume s: "sceneInv st"
  have "sceneInv (updateColorPalette3D st mood en) = sceneInv st"
    by (rule sceneInv_fields) (simp_all add: updateColorPalette3D_def split: sum.splits)
  then show ?thesis
    using s UpdateColorPalette3D by simp
qed

lemma sceneInv_run: "sceneInv st \<Longrightarrow> sceneInv (run3D st evs)"
  unfolding run3D_def
  by (induction evs arbitrary: st) (simp_all add: sceneInv_step)

lemma sceneInv_new: "sceneInv Visualizer3D_new"
  unfolding Visualizer3D_new_def
  by (rule createBars_inv(1)) (simp add: sceneWf_def)

text \<open>
  C7: in every state reached from construction by the operations of the scene visualizer
  in use (start, stop, frames run by the host, setting the analyzer, palette updates)
  the collection holds as many visual objects as its variant has: 64 for bars, 100 for
  sphere, 20 * 32 = 640 for tunnel, 32 * 32 = 1024 for wave. Each construction of a variant
  leaves exactly that many objects and sets the variant; it first removes from the scene
  and disposes of every object of the previous collection, so none of them is in the new
  collection or among the children of the scene, whose other children (the lights) stay.
  A variant switch is the construction of the next variant.
\<close>

theorem variant_object_counts:
  "length (v3_visualObjects (run3D Visualizer3D_new evs))
     = variantCount (v3_geometryType (run3D Visualizer3D_new evs))
   \<and> length (v3_visualObjects (createBarsGeometry (run3D Visualizer3D_new evs))) = 64
   \<and> length (v3_visualObjects (createSphereGeometry (run3D Visualizer3D_new evs))) = 100
   \<and> length (v3_visualObjects (createTunnelGeometry (run3D Visualizer3D_new evs))) = 20 * 32
   \<and> length (v3_visualObjects (createWaveGeometry (run3D Visualizer3D_new evs))) = 32 * 32
   \<and> v3_geometryType (createBarsGeometry (run3D Visualizer3D_new evs)) = Bars
   \<and> v3_geometryType (createSphereGeometry (run3D Visualizer3D_new evs)) = Sphere
   \<and> v3_geometryType (createTunnelGeometry (run3D Visualizer3D_new evs)) = Tunnel
   \<and> v3_geometryType (createWaveGeometry (run3D Visualizer3D_new evs)) = Wave
   \<and> replacesAll (run3D Visualizer3D_new evs) (createBarsGeometry (run3D Visualizer3D_new evs))
   \<and> replacesAll (run3D Visualizer3D_new evs) (createSphereGeometry (run3D Visualizer3D_new evs))
   \<and> replacesAll (run3D Visualizer3D_new evs) (createTunnelGeometry (run3D Visualizer3D_new evs))
   \<and> replacesAll (run3D Visualizer3D_new evs) (createWaveGeometry (run3D Visualizer3D_new evs))
   \<and> replacesAll (run3D Visualizer3D_new evs) (switchGeometry (run3D Visualizer3D_new evs))
   \<and> v3_geometryType (switchGeometry (run3D Visualizer3D_new evs))
       \<noteq> v3_geometryType (run3D Visualizer3D_new evs)
   \<and> length (v3_visualObjects (switchGeometry (run3D Visualizer3D_new evs)))
       = variantCount (v3_geometryType (switchGeometry (run3D Visualizer3D_new evs)))"
proof -
  let ?st = "run3D Visualizer3D_new evs"
  have i: "sceneInv ?st"
    by (intro sceneInv_run sceneInv_new)
  then have w: "sceneWf ?st" and c: "length (v3_visualObjects ?st) = variantCount (v3_geometryType ?st)"
    by (simp_all add: sceneInv_def)
  show ?thesis
    using c createBars_inv(2,3,4) [OF w] createSphere_inv(2,3,4) [OF w]
      createTunnel_inv(2,3,4) [OF w] createWave_inv(2,3,4) [OF w] switchGeometry_inv(2,3,4) [OF i]
    by simp
qed

theorem variant_object_counts_witness:
  "length (v3_visualObjects Visualizer3D_new) = 64
   \<and> length (v3_visualObjects (createTunnelGeometry Visualizer3D_new)) = 640
   \<and> v3_geometryType (switchGeometry Visualizer3D_new) = Sphere
   \<and> length (v3_visualObjects (switchGeometry Visualizer3D_new)) = 100
   \<and> 6 \<in> uid ` set (v3_visualObjects Visualizer3D_new)
   \<and> 6 \<notin> set (v3_scene (createTunnelGeometry Visualizer3D_new))
   \<and> 6 \<in> set (v3_disposed (createTunnelGeometry Visualizer3D_new))
   \<and> 0 \<in> set (v3_scene (createTunnelGeometry Visualizer3D_new))"
proof -
  let ?init = "\<lparr> v3_scene = [0, 1, 2, 3, 4, 5], v3_visualObjects = [], v3_geometryType = Bars,
         v3_animationId = None, v3_isRunning = False, v3_time = 0,
         v3_colorPalette =
           (case generateMoodPalette ''neutral'' (1 / 2) of Inr p \<Rightarrow> p | Inl err \<Rightarrow> []),
         v3_beatIntensity = 0, v3_audioAnalyzer = False,
         v3_nextUid = 6, v3_disposed = [],
         v3_pending = {}, v3_nextRequest = 1 \<rparr>"
  note t = variant_object_counts [of "[]", unfolded run3D_def foldl_Nil]
  have g: "v3_geometryType Visualizer3D_new = Bars"
    by (simp add: Visualizer3D_new_def createBarsGeometry_def)
  have "map uid (v3_visualObjects Visualizer3D_new) = [6..<6 + 64]"
    using foldl_addMesh_objects [of "clearScene ?init" "map barData [0..<64]"]
    by (simp add: Visualizer3D_new_def createBarsGeometry_def clearScene_def del: upt_Suc)
  then have "set (map uid (v3_visualObjects Visualizer3D_new)) = set [6..<6 + 64]"
    by (rule arg_cong)
  then have six: "6 \<in> uid ` set (v3_visualObjects Visualizer3D_new)"
    by simp
  have "v3_scene Visualizer3D_new = [0, 1, 2, 3, 4, 5] @ [6..<6 + 64]"
    using foldl_addMesh_objects [of "clearScene ?init" "map barData [0..<64]"]
    by (simp add: Visualizer3D_new_def createBarsGeometry_def clearScene_def del: upt_Suc)
  then have "set (v3_scene Visualizer3D_new) = set ([0, 1, 2, 3, 4, 5] @ [6..<6 + 64])"
    by (rule arg_cong)
  then have zero: "0 \<in> set (v3_scene Visualizer3D_new)"
    by simp
  have zero': "0 \<notin> uid ` set (v3_visualObjects Visualizer3D_new)"
    using \<open>set (map uid (v3_visualObjects Visualizer3D_new)) = set [6..<6 + 64]\<close> by simp
  have r: "replacesAll Visualizer3D_new (createTunnelGeometry Visualizer3D_new)"
    using t by blast
  have c1: "length (v3_visualObjects Visualizer3D_new) = 64"
    using t g by simp
  have c2: "length (v3_visualObjects (createTunnelGeometry Visualizer3D_new)) = 640"
    using t by simp
  have c3: "v3_geometryType (switchGeometry Visualizer3D_new) = Sphere"
    using g t by (simp add: switchGeometry_def)
  have c4: "length (v3_visualObjects (switchGeometry Visualizer3D_new)) = 100"
    using t c3 by simp
  have c5: "6 \<notin> set (v3_scene (createTunnelGeometry Visualizer3D_new))"
    using r six unfolding replacesAll_def by blast
  have c6: "6 \<in> set (v3_disposed (createTunnelGeometry Visualizer3D_new))"
    using r six unfolding replacesAll_def by blast
  have c7: "0 \<in> set (v3_scene (createTunnelGeometry Visualizer3D_new))"
    using r zero zero' unfolding replacesAll_def by blast
  show ?thesis
    using c1 c2 c3 c4 six c5 c6 c7 by (intro conjI)
qed

end
